theory Spec2Isabelle
  imports Main
begin

section \<open>Errors raised by the backend\<close>

text \<open>
  Every exception the modelled code can raise is a value.
  \<^item> \<open>UnauthorizedException\<close>: NestJS' 401 exception, with its message;
  \<^item> \<open>TooManyRequests\<close>: the \<open>HttpException\<close> with status 429 thrown by the rate
    limiters, with its message and its \<open>retryAfter\<close> field;
  \<^item> \<open>StoreError\<close>: any error raised by the Redis client (connection lost, wrong type
    of value under the key);
  \<^item> \<open>Error\<close>: a plain JavaScript \<open>Error\<close> with its message.
\<close>

datatype error =
    UnauthorizedException string
  | TooManyRequests string int
  | StoreError
  | Error string

section \<open>The key-value store (redis.service.ts)\<close>

type_synonym json = string

record SessionData =
  sessionId :: string
  userId :: string
  email :: string
  role :: string
  tenantId :: "string option"
  createdAt :: int
  lastAccessedAt :: int
  userAgent :: "string option"
  ipAddress :: "string option"
  metadata :: "(string \<times> json) list option"

text \<open>
  A Redis value is a string or a set of strings. The strings this backend writes are the
  JSON text of a session (\<open>setJson\<close>) and decimal counters (\<open>incr\<close>); a string value is
  modelled by the object it denotes. A set is the list of its members in the order
  \<open>SMEMBERS\<close> enumerates them. Every key carries its remaining time to live in seconds,
  \<open>None\<close> for a key that never expires.
\<close>

datatype rvalue = Json SessionData | Counter int | Members "string list"

type_synonym redis = "string \<Rightarrow> (rvalue \<times> nat option) option"

type_synonym 'a io = "redis \<Rightarrow> error + ('a \<times> redis)"

definition ret :: "'a \<Rightarrow> 'a io" where
  "ret x = (\<lambda>R. Inr (x, R))"

definition throw :: "error \<Rightarrow> 'a io" where
  "throw e = (\<lambda>R. Inl e)"

definition bnd :: "'a io \<Rightarrow> ('a \<Rightarrow> 'b io) \<Rightarrow> 'b io" where
  "bnd m f = (\<lambda>R. case m R of Inl e \<Rightarrow> Inl e | Inr (x, R') \<Rightarrow> f x R')"

text \<open>\<open>set(key, value, ttlSeconds?)\<close>: \<open>SETEX\<close> when \<open>ttlSeconds\<close> is truthy, else \<open>SET\<close>
  (which drops any expiry the key had).\<close>

definition set_key :: "string \<Rightarrow> rvalue \<Rightarrow> nat \<Rightarrow> unit io" where
  "set_key key v ttlSeconds =
     (\<lambda>R. if ttlSeconds \<noteq> 0 then Inr ((), R(key \<mapsto> (v, Some ttlSeconds)))
          else Inr ((), R(key \<mapsto> (v, None))))"

text \<open>\<open>get(key)\<close>: \<open>GET\<close> answers null for a missing key and fails on a set.\<close>

definition get_key :: "string \<Rightarrow> rvalue option io" where
  "get_key key =
     (\<lambda>R. case R key of
             None \<Rightarrow> Inr (None, R)
           | Some (Members xs, t) \<Rightarrow> Inl StoreError
           | Some (v, t) \<Rightarrow> Inr (Some v, R))"

definition del :: "string \<Rightarrow> int io" where
  "del key = (\<lambda>R. case R key of None \<Rightarrow> Inr (0, R) | Some e \<Rightarrow> Inr (1, R(key := None)))"

text \<open>\<open>expire(key, ttlSeconds)\<close>: \<open>EXPIRE\<close> answers 0 for a missing key; a time to live
  of zero deletes the key.\<close>

definition expire :: "string \<Rightarrow> nat \<Rightarrow> bool io" where
  "expire key ttlSeconds =
     (\<lambda>R. case R key of
             None \<Rightarrow> Inr (False, R)
           | Some (v, t) \<Rightarrow>
               if ttlSeconds = 0 then Inr (True, R(key := None))
               else Inr (True, R(key \<mapsto> (v, Some ttlSeconds))))"

text \<open>\<open>ttl(key)\<close>: \<open>TTL\<close> answers -2 for a missing key and -1 for a key without expiry.\<close>

definition ttl :: "string \<Rightarrow> int io" where
  "ttl key =
     (\<lambda>R. case R key of
             None \<Rightarrow> Inr (- 2, R)
           | Some (v, None) \<Rightarrow> Inr (- 1, R)
           | Some (v, Some t) \<Rightarrow> Inr (int t, R))"

definition setJson :: "string \<Rightarrow> SessionData \<Rightarrow> nat \<Rightarrow> unit io" where
  "setJson key v ttlSeconds = set_key key (Json v) ttlSeconds"

text \<open>\<open>getJson(key)\<close>: null when the key is missing. A counter under the key is not the
  JSON text of a session; the typed read is reported as a store error.\<close>

definition getJson :: "string \<Rightarrow> SessionData option io" where
  "getJson key =
     bnd (get_key key) (\<lambda>v.
       case v of
         None \<Rightarrow> ret None
       | Some (Json s) \<Rightarrow> ret (Some s)
       | Some _ \<Rightarrow> throw StoreError)"

text \<open>\<open>sAdd(key, value)\<close>: creates the set when the key is missing (without expiry).\<close>

definition sAdd :: "string \<Rightarrow> string \<Rightarrow> int io" where
  "sAdd key v =
     (\<lambda>R. case R key of
             None \<Rightarrow> Inr (1, R(key \<mapsto> (Members [v], None)))
           | Some (Members xs, t) \<Rightarrow>
               if v \<in> set xs then Inr (0, R)
               else Inr (1, R(key \<mapsto> (Members (xs @ [v]), t)))
           | Some _ \<Rightarrow> Inl StoreError)"

definition sMembers :: "string \<Rightarrow> string list io" where
  "sMembers key =
     (\<lambda>R. case R key of
             None \<Rightarrow> Inr ([], R)
           | Some (Members xs, t) \<Rightarrow> Inr (xs, R)
           | Some _ \<Rightarrow> Inl StoreError)"

text \<open>\<open>sRem(key, value)\<close>: Redis deletes a set that becomes empty.\<close>

definition sRem :: "string \<Rightarrow> string \<Rightarrow> int io" where
  "sRem key v =
     (\<lambda>R. case R key of
             None \<Rightarrow> Inr (0, R)
           | Some (Members xs, t) \<Rightarrow>
               if v \<in> set xs then
                 (if removeAll v xs = [] then Inr (1, R(key := None))
                  else Inr (1, R(key \<mapsto> (Members (removeAll v xs), t))))
               else Inr (0, R)
           | Some _ \<Rightarrow> Inl StoreError)"

text \<open>\<open>incr(key)\<close>: \<open>INCR\<close> starts a missing key at 0 and keeps the expiry of an existing
  one; it fails on anything that is not an integer.\<close>

definition incr :: "string \<Rightarrow> int io" where
  "incr key =
     (\<lambda>R. case R key of
             None \<Rightarrow> Inr (1, R(key \<mapsto> (Counter 1, None)))
           | Some (Counter n, t) \<Rightarrow> Inr (n + 1, R(key \<mapsto> (Counter (n + 1), t)))
           | Some _ \<Rightarrow> Inl StoreError)"

text \<open>The passing of \<open>d\<close> seconds: a key whose time to live is used up is gone.\<close>

definition elapse :: "nat \<Rightarrow> redis \<Rightarrow> redis" where
  "elapse d R =
     (\<lambda>key. case R key of
               None \<Rightarrow> None
             | Some (v, None) \<Rightarrow> Some (v, None)
             | Some (v, Some t) \<Rightarrow> if t \<le> d then None else Some (v, Some (t - d)))"

section \<open>The session store (session.service.ts)\<close>

text \<open>The service's configuration: \<open>SESSION_TTL\<close> is read from the environment
  (default 7 days), \<open>MAX_SESSIONS_PER_USER\<close> is the constant 5.\<close>

record SessionService =
  SESSION_TTL :: nat

definition default_service :: SessionService where
  "default_service = \<lparr>SESSION_TTL = 7 * 24 * 60 * 60\<rparr>"

definition MAX_SESSIONS_PER_USER :: nat where
  "MAX_SESSIONS_PER_USER = 5"

definition getSessionKey :: "string \<Rightarrow> string" where
  "getSessionKey sid = ''session:'' @ sid"

definition getUserSessionsKey :: "string \<Rightarrow> string" where
  "getUserSessionsKey uid = ''user_sessions:'' @ uid"

text \<open>\<open>getSession\<close>; \<open>now\<close> is what \<open>Date.now()\<close> returns.\<close>

definition getSession :: "SessionService \<Rightarrow> int \<Rightarrow> string \<Rightarrow> SessionData option io" where
  "getSession svc now sid =
     bnd (getJson (getSessionKey sid)) (\<lambda>session.
       case session of
         None \<Rightarrow> ret None
       | Some s \<Rightarrow>
           let s' = s\<lparr>lastAccessedAt := now\<rparr> in
           bnd (setJson (getSessionKey sid) s' (SESSION_TTL svc)) (\<lambda>_. ret (Some s')))"

definition validateSession :: "SessionService \<Rightarrow> int \<Rightarrow> string \<Rightarrow> SessionData io" where
  "validateSession svc now sid =
     bnd (getSession svc now sid) (\<lambda>session.
       case session of
         None \<Rightarrow> throw (UnauthorizedException ''Invalid or expired session'')
       | Some s \<Rightarrow> ret s)"

definition destroySession :: "string \<Rightarrow> bool io" where
  "destroySession sid =
     bnd (getJson (getSessionKey sid)) (\<lambda>session.
     bnd (case session of
            Some s \<Rightarrow> bnd (sRem (getUserSessionsKey (userId s)) sid) (\<lambda>_. ret ())
          | None \<Rightarrow> ret ()) (\<lambda>_.
     bnd (del (getSessionKey sid)) (\<lambda>result. ret (result > 0))))"

definition getUserSessions :: "string \<Rightarrow> string list io" where
  "getUserSessions uid = sMembers (getUserSessionsKey uid)"

text \<open>The loop of \<open>destroyAllUserSessions\<close>, with its counter.\<close>

fun destroyAll_loop :: "string list \<Rightarrow> nat \<Rightarrow> nat io" where
  "destroyAll_loop [] count = ret count"
| "destroyAll_loop (sid # sids) count =
     bnd (del (getSessionKey sid)) (\<lambda>_. destroyAll_loop sids (count + 1))"

definition destroyAllUserSessions :: "string \<Rightarrow> nat io" where
  "destroyAllUserSessions uid =
     bnd (getUserSessions uid) (\<lambda>sessionIds.
     bnd (destroyAll_loop sessionIds 0) (\<lambda>count.
     bnd (del (getUserSessionsKey uid)) (\<lambda>_. ret count)))"

text \<open>The loop of \<open>getUserSessionsWithDetails\<close>: the records that still exist, in the
  order of the index.\<close>

fun details_loop :: "string list \<Rightarrow> SessionData list \<Rightarrow> SessionData list io" where
  "details_loop [] sessions = ret sessions"
| "details_loop (sid # sids) sessions =
     bnd (getJson (getSessionKey sid)) (\<lambda>session.
       case session of
         Some s \<Rightarrow> details_loop sids (sessions @ [s])
       | None \<Rightarrow> details_loop sids sessions)"

text \<open>\<open>Array.prototype.sort\<close> is stable; \<open>(a, b) => b.lastAccessedAt - a.lastAccessedAt\<close>
  sorts descending, \<open>(a, b) => a.lastAccessedAt - b.lastAccessedAt\<close> ascending.\<close>

definition sort_desc :: "SessionData list \<Rightarrow> SessionData list" where
  "sort_desc xs = sort_key (\<lambda>s. - lastAccessedAt s) xs"

definition sort_asc :: "SessionData list \<Rightarrow> SessionData list" where
  "sort_asc xs = sort_key lastAccessedAt xs"

definition getUserSessionsWithDetails :: "string \<Rightarrow> SessionData list io" where
  "getUserSessionsWithDetails uid =
     bnd (getUserSessions uid) (\<lambda>sessionIds.
     bnd (details_loop sessionIds []) (\<lambda>sessions. ret (sort_desc sessions)))"

text \<open>Object spread \<open>{ ...a, ...b }\<close>: the keys of \<open>a\<close> in their order, with the value of
  \<open>b\<close> where \<open>b\<close> has the key, then the keys only \<open>b\<close> has. Spreading \<open>undefined\<close> adds
  nothing.\<close>

definition spread :: "(string \<times> json) list option \<Rightarrow> (string \<times> json) list \<Rightarrow> (string \<times> json) list" where
  "spread a b =
     (let a' = (case a of None \<Rightarrow> [] | Some kvs \<Rightarrow> kvs) in
      map (\<lambda>(k, v). (k, case map_of b k of Some v' \<Rightarrow> v' | None \<Rightarrow> v)) a'
      @ filter (\<lambda>(k, v). map_of a' k = None) b)"

definition updateSessionMetadata ::
  "SessionService \<Rightarrow> int \<Rightarrow> string \<Rightarrow> (string \<times> json) list \<Rightarrow> bool io" where
  "updateSessionMetadata svc now sid patch =
     bnd (getJson (getSessionKey sid)) (\<lambda>session.
       case session of
         None \<Rightarrow> ret False
       | Some s \<Rightarrow>
           let s' = s\<lparr>metadata := Some (spread (metadata s) patch), lastAccessedAt := now\<rparr> in
           bnd (setJson (getSessionKey sid) s' (SESSION_TTL svc)) (\<lambda>_. ret True))"

text \<open>The loop of \<open>cleanupOldSessions\<close> over the sessions to remove.\<close>

fun destroy_loop :: "SessionData list \<Rightarrow> unit io" where
  "destroy_loop [] = ret ()"
| "destroy_loop (s # ss) = bnd (destroySession (sessionId s)) (\<lambda>_. destroy_loop ss)"

definition sessionsToRemove :: "SessionData list \<Rightarrow> SessionData list" where
  "sessionsToRemove sessions =
     take (length sessions - MAX_SESSIONS_PER_USER) (sort_asc sessions)"

definition cleanupOldSessions :: "string \<Rightarrow> unit io" where
  "cleanupOldSessions uid =
     bnd (getUserSessionsWithDetails uid) (\<lambda>sessions.
       if length sessions \<le> MAX_SESSIONS_PER_USER then ret ()
       else destroy_loop (sessionsToRemove sessions))"

text \<open>The options of \<open>createSession\<close>.\<close>

record CreateSessionOptions =
  o_userId :: string
  o_email :: string
  o_role :: string
  o_tenantId :: "string option"
  o_userAgent :: "string option"
  o_ipAddress :: "string option"
  o_metadata :: "(string \<times> json) list option"

text \<open>\<open>createSession\<close>; \<open>sid\<close> is what \<open>generateSessionId()\<close> returns and \<open>now\<close> what
  \<open>Date.now()\<close> returns.\<close>

definition createSession ::
  "SessionService \<Rightarrow> string \<Rightarrow> int \<Rightarrow> CreateSessionOptions \<Rightarrow> SessionData io" where
  "createSession svc sid now opts =
     (let session = \<lparr>sessionId = sid, userId = o_userId opts, email = o_email opts,
                     role = o_role opts, tenantId = o_tenantId opts, createdAt = now,
                     lastAccessedAt = now, userAgent = o_userAgent opts,
                     ipAddress = o_ipAddress opts, metadata = o_metadata opts\<rparr> in
      bnd (setJson (getSessionKey sid) session (SESSION_TTL svc)) (\<lambda>_.
      bnd (sAdd (getUserSessionsKey (o_userId opts)) sid) (\<lambda>_.
      bnd (expire (getUserSessionsKey (o_userId opts)) (SESSION_TTL svc)) (\<lambda>_.
      bnd (cleanupOldSessions (o_userId opts)) (\<lambda>_. ret session)))))"

section \<open>Requests and responses\<close>

text \<open>
  The part of an Express request the modelled code reads: the headers
  \<open>x-forwarded-for\<close>, \<open>x-session-id\<close> and \<open>authorization\<close> (Node joins repeated
  occurrences of these into one string), \<open>req.ip\<close>, \<open>req.socket.remoteAddress\<close>, the
  \<open>sessionId\<close> cookie (\<open>None\<close> also when there are no cookies); and the two fields the
  guards write, \<open>request.session\<close> and \<open>request.user\<close>.
\<close>

record Identity =
  i_userId :: string
  i_email :: string
  i_role :: string
  i_tenantId :: "string option"
  i_sessionId :: "string option"

record Request =
  x_forwarded_for :: "string option"
  ip :: "string option"
  remoteAddress :: "string option"
  x_session_id :: "string option"
  authorization :: "string option"
  cookie_sessionId :: "string option"
  session :: "SessionData option"
  user :: "Identity option"

text \<open>The response headers set so far, by name.\<close>

type_synonym Response = "string \<Rightarrow> int option"

definition setHeader :: "string \<Rightarrow> int \<Rightarrow> Response \<Rightarrow> Response" where
  "setHeader name v res = res(name \<mapsto> v)"

text \<open>A JavaScript string is truthy when it is there and not empty.\<close>

fun truthy :: "string option \<Rightarrow> bool" where
  "truthy None = False"
| "truthy (Some s) = (s \<noteq> [])"

text \<open>\<open>String.prototype.split\<close> with a one-character separator.\<close>

fun split :: "char \<Rightarrow> string \<Rightarrow> string list" where
  "split d [] = [[]]"
| "split d (c # cs) =
     (if c = d then [] # split d cs
      else (let r = split d cs in (c # hd r) # tl r))"

text \<open>\<open>String.prototype.trim\<close>, on the ASCII white space.\<close>

definition is_space :: "char \<Rightarrow> bool" where
  "is_space c = (c \<in> set [CHR '' '', CHR 0x09, CHR 0x0A, CHR 0x0B, CHR 0x0C, CHR 0x0D])"

definition trim :: "string \<Rightarrow> string" where
  "trim s = rev (dropWhile is_space (rev (dropWhile is_space s)))"

section \<open>The rate limiters (rate-limit.middleware.ts)\<close>

record RateLimitConfig =
  windowMs :: nat
  maxRequests :: int
  message :: string

definition RateLimitMiddleware_config :: RateLimitConfig where
  "RateLimitMiddleware_config =
     \<lparr>windowMs = 60 * 1000, maxRequests = 100,
      message = ''Too many requests, please try again later.''\<rparr>"

definition AuthRateLimitMiddleware_config :: RateLimitConfig where
  "AuthRateLimitMiddleware_config =
     \<lparr>windowMs = 15 * 60 * 1000, maxRequests = 10,
      message = ''Too many login attempts, please try again later.''\<rparr>"

text \<open>\<open>Math.ceil(windowMs / 1000)\<close>.\<close>

definition window_seconds :: "RateLimitConfig \<Rightarrow> nat" where
  "window_seconds cfg = (windowMs cfg + 999) div 1000"

definition getClientIp :: "Request \<Rightarrow> string" where
  "getClientIp req =
     (if truthy (x_forwarded_for req)
      then trim (hd (split CHR '','' (the (x_forwarded_for req))))
      else if truthy (ip req) then the (ip req)
      else if truthy (remoteAddress req) then the (remoteAddress req)
      else ''unknown'')"

text \<open>
  The store may be unreachable at any call. Which of the three calls of one run of a
  limiter fail for that reason is an input of the run.
\<close>

record Faults =
  incr_fails :: bool
  expire_fails :: bool
  ttl_fails :: bool

definition no_faults :: Faults where
  "no_faults = \<lparr>incr_fails = False, expire_fails = False, ttl_fails = False\<rparr>"

definition attempt :: "bool \<Rightarrow> 'a io \<Rightarrow> 'a io" where
  "attempt fails m = (if fails then throw StoreError else m)"

text \<open>What a middleware did with the request: called \<open>next()\<close>, or threw.\<close>

datatype outcome = Next | Throw error

text \<open>The \<open>catch\<close> block of both limiters: an \<open>HttpException\<close> is thrown again, anything
  else lets the request through.\<close>

fun isHttpException :: "error \<Rightarrow> bool" where
  "isHttpException (UnauthorizedException m) = True"
| "isHttpException (TooManyRequests m t) = True"
| "isHttpException StoreError = False"
| "isHttpException (Error m) = False"

definition catch_block :: "error \<Rightarrow> outcome" where
  "catch_block e = (if isHttpException e then Throw e else Next)"

definition RateLimitMiddleware_use ::
  "Faults \<Rightarrow> int \<Rightarrow> Request \<Rightarrow> Response \<Rightarrow> redis \<Rightarrow> outcome \<times> Response \<times> redis" where
  "RateLimitMiddleware_use f now req res R =
     (let cfg = RateLimitMiddleware_config;
          key = ''ratelimit:'' @ getClientIp req in
      case attempt (incr_fails f) (incr key) R of
        Inl e \<Rightarrow> (catch_block e, res, R)
      | Inr (current, R1) \<Rightarrow>
          (case (if current = 1
                 then attempt (expire_fails f) (expire key (window_seconds cfg)) R1
                 else Inr (False, R1)) of
             Inl e \<Rightarrow> (catch_block e, res, R1)
           | Inr (_, R2) \<Rightarrow>
               (case attempt (ttl_fails f) (ttl key) R2 of
                  Inl e \<Rightarrow> (catch_block e, res, R2)
                | Inr (t, R3) \<Rightarrow>
                    (let res1 = setHeader ''X-RateLimit-Limit'' (maxRequests cfg) res;
                         res2 = setHeader ''X-RateLimit-Remaining''
                                  (max 0 (maxRequests cfg - current)) res1;
                         res3 = setHeader ''X-RateLimit-Reset'' (now + t * 1000) res2 in
                     if current > maxRequests cfg
                     then (catch_block (TooManyRequests (message cfg) t), res3, R3)
                     else (Next, res3, R3)))))"

definition AuthRateLimitMiddleware_use ::
  "Faults \<Rightarrow> int \<Rightarrow> Request \<Rightarrow> Response \<Rightarrow> redis \<Rightarrow> outcome \<times> Response \<times> redis" where
  "AuthRateLimitMiddleware_use f now req res R =
     (let cfg = AuthRateLimitMiddleware_config;
          key = ''ratelimit:auth:'' @ getClientIp req in
      case attempt (incr_fails f) (incr key) R of
        Inl e \<Rightarrow> (catch_block e, res, R)
      | Inr (current, R1) \<Rightarrow>
          (case (if current = 1
                 then attempt (expire_fails f) (expire key (window_seconds cfg)) R1
                 else Inr (False, R1)) of
             Inl e \<Rightarrow> (catch_block e, res, R1)
           | Inr (_, R2) \<Rightarrow>
               (case attempt (ttl_fails f) (ttl key) R2 of
                  Inl e \<Rightarrow> (catch_block e, res, R2)
                | Inr (t, R3) \<Rightarrow>
                    (let res1 = setHeader ''X-RateLimit-Limit'' (maxRequests cfg) res;
                         res2 = setHeader ''X-RateLimit-Remaining''
                                  (max 0 (maxRequests cfg - current)) res1 in
                     if current > maxRequests cfg
                     then (catch_block (TooManyRequests (message cfg) t), res2, R3)
                     else (Next, res2, R3)))))"


section \<open>The hybrid guard (session-auth.guard.ts)\<close>

record JwtPayload =
  sub :: string
  p_email :: string
  p_role :: string
  tenant_id :: "string option"

definition extractSessionId :: "Request \<Rightarrow> string option" where
  "extractSessionId request =
     (if truthy (x_session_id request) then x_session_id request
      else if truthy (cookie_sessionId request) then cookie_sessionId request
      else None)"

text \<open>\<open>authHeader.startsWith('Bearer ')\<close>, then \<open>authHeader.substring(7)\<close>.\<close>

definition extractJwt :: "Request \<Rightarrow> string option" where
  "extractJwt request =
     (case authorization request of
        None \<Rightarrow> None
      | Some authHeader \<Rightarrow>
          if authHeader \<noteq> [] \<and> take 7 authHeader = ''Bearer '' then Some (drop 7 authHeader)
          else None)"

text \<open>
  \<open>HybridAuthGuard.canActivate\<close>. \<open>verify\<close> is \<open>jwtService.verify\<close> of \<open>@nestjs/jwt\<close>:
  it returns the payload of a token it accepts and throws (\<open>None\<close>) otherwise. The guard
  returns \<open>true\<close> with the request it has written to, or throws.
\<close>

definition jwt_path ::
  "(string \<Rightarrow> JwtPayload option) \<Rightarrow> Request \<Rightarrow> error + Request" where
  "jwt_path verify request =
     (let token = extractJwt request in
      if \<not> truthy token
      then Inl (UnauthorizedException ''No authentication credentials provided'')
      else (case verify (the token) of
              Some payload \<Rightarrow>
                Inr (request\<lparr>user := Some \<lparr>i_userId = sub payload, i_email = p_email payload,
                                          i_role = p_role payload, i_tenantId = tenant_id payload,
                                          i_sessionId = None\<rparr>\<rparr>)
            | None \<Rightarrow> Inl (UnauthorizedException ''Invalid or expired token'')))"

definition HybridAuthGuard_canActivate ::
  "SessionService \<Rightarrow> (string \<Rightarrow> JwtPayload option) \<Rightarrow> int \<Rightarrow> Request \<Rightarrow> redis
     \<Rightarrow> (error + Request) \<times> redis" where
  "HybridAuthGuard_canActivate svc verify now request R =
     (let sid = extractSessionId request in
      if truthy sid then
        (case validateSession svc now (the sid) R of
           Inr (s, R') \<Rightarrow>
             (Inr (request\<lparr>session := Some s,
                           user := Some \<lparr>i_userId = userId s, i_email = email s,
                                         i_role = role s, i_tenantId = tenantId s,
                                         i_sessionId = Some (sessionId s)\<rparr>\<rparr>), R')
         | Inl error \<Rightarrow> (jwt_path verify request, R))
      else (jwt_path verify request, R))"

section \<open>Token encryption (token-encryption.service.ts)\<close>

text \<open>
  Bytes and strings are both \<open>char list\<close>: a string is its UTF-8 bytes.

  \<open>Buffer.toString('base64')\<close>: the standard alphabet, padded with \<open>=\<close>.
\<close>

definition b64 :: "nat \<Rightarrow> char" where
  "b64 n =
     (if n < 26 then char_of (65 + n)
      else if n < 52 then char_of (71 + n)
      else if n < 62 then char_of (n - 4)
      else if n = 62 then CHR ''+''
      else CHR ''/'')"

fun base64_encode :: "string \<Rightarrow> string" where
  "base64_encode [] = []"
| "base64_encode [a] =
     (let x = (of_char a :: nat) in
      [b64 (x div 4), b64 ((x mod 4) * 16), CHR ''='', CHR ''=''])"
| "base64_encode [a, b] =
     (let x = (of_char a :: nat); y = (of_char b :: nat) in
      [b64 (x div 4), b64 ((x mod 4) * 16 + y div 16), b64 ((y mod 16) * 4), CHR ''=''])"
| "base64_encode (a # b # c # rest) =
     (let x = (of_char a :: nat); y = (of_char b :: nat); z = (of_char c :: nat) in
      [b64 (x div 4), b64 ((x mod 4) * 16 + y div 16), b64 ((y mod 16) * 4 + z div 64),
       b64 (z mod 64)] @ base64_encode rest)"

text \<open>
  \<open>Buffer.from(s, 'base64')\<close> is lenient: it accepts the URL-safe characters too, skips
  a character outside the alphabet, stops at the first \<open>=\<close>, and drops the bits of an
  incomplete last byte without looking at them.
\<close>

definition unbase64 :: "char \<Rightarrow> nat option" where
  "unbase64 c =
     (let x = (of_char c :: nat) in
      if 65 \<le> x \<and> x \<le> 90 then Some (x - 65)
      else if 97 \<le> x \<and> x \<le> 122 then Some (x - 71)
      else if 48 \<le> x \<and> x \<le> 57 then Some (x + 4)
      else if x = 43 \<or> x = 45 then Some 62
      else if x = 47 \<or> x = 95 then Some 63
      else None)"

fun sextets :: "string \<Rightarrow> nat list" where
  "sextets [] = []"
| "sextets (c # cs) =
     (if c = CHR ''='' then []
      else (case unbase64 c of Some n \<Rightarrow> n # sextets cs | None \<Rightarrow> sextets cs))"

fun from_sextets :: "nat list \<Rightarrow> string" where
  "from_sextets (a # b # c # d # rest) =
     [char_of (a * 4 + b div 16), char_of ((b mod 16) * 16 + c div 4),
      char_of ((c mod 4) * 64 + d)] @ from_sextets rest"
| "from_sextets [a, b, c] = [char_of (a * 4 + b div 16), char_of ((b mod 16) * 16 + c div 4)]"
| "from_sextets [a, b] = [char_of (a * 4 + b div 16)]"
| "from_sextets _ = []"

definition base64_decode :: "string \<Rightarrow> string" where
  "base64_decode s = from_sextets (sextets s)"

text \<open>
  The cipher of Node's \<open>crypto\<close> module (\<open>aes-256-gcm\<close>) is not part of the repository;
  the service is modelled over any authenticated cipher:
  \<^item> \<open>seal key iv plaintext\<close> is \<open>createCipheriv\<close>, \<open>update\<close>, \<open>final\<close> and
    \<open>getAuthTag\<close>: the ciphertext and the tag, or \<open>None\<close> when one of them throws;
  \<^item> \<open>unseal key iv tag ciphertext\<close> is \<open>createDecipheriv\<close>, \<open>setAuthTag\<close>, \<open>update\<close>
    and \<open>final\<close>: the plaintext, or \<open>None\<close> when one of them throws (a bad key, IV or
    tag length, a tag that does not verify).
\<close>

record aead =
  seal :: "string \<Rightarrow> string \<Rightarrow> string \<Rightarrow> (string \<times> string) option"
  unseal :: "string \<Rightarrow> string \<Rightarrow> string \<Rightarrow> string \<Rightarrow> string option"

text \<open>What the service relies on: under the key, the cipher opens what it sealed with
  a 16-byte IV.\<close>

definition aead_correct :: "aead \<Rightarrow> string \<Rightarrow> bool" where
  "aead_correct A key \<longleftrightarrow>
     (\<forall>iv p. length iv = 16 \<longrightarrow>
        (\<exists>ct tag. seal A key iv p = Some (ct, tag) \<and> unseal A key iv tag ct = Some p))"

text \<open>\<open>encrypt\<close>; \<open>iv\<close> is what \<open>crypto.randomBytes(this.ivLength)\<close> returns.\<close>

definition encrypt :: "aead \<Rightarrow> string \<Rightarrow> string \<Rightarrow> string \<Rightarrow> error + string" where
  "encrypt A encryptionKey iv plaintext =
     (if plaintext = [] then Inr []
      else (case seal A encryptionKey iv plaintext of
              None \<Rightarrow> Inl (Error ''Failed to encrypt token'')
            | Some (encrypted, authTag) \<Rightarrow>
                Inr (base64_encode iv @ '':'' @ base64_encode authTag @ '':''
                     @ base64_encode encrypted)))"

definition decrypt :: "aead \<Rightarrow> string \<Rightarrow> string \<Rightarrow> error + string" where
  "decrypt A encryptionKey encryptedData =
     (if encryptedData = [] then Inr []
      else (let parts = split CHR '':'' encryptedData in
            if length parts \<noteq> 3 then Inl (Error ''Failed to decrypt token'')
            else (case unseal A encryptionKey (base64_decode (parts ! 0))
                         (base64_decode (parts ! 1)) (base64_decode (parts ! 2)) of
                    None \<Rightarrow> Inl (Error ''Failed to decrypt token'')
                  | Some decrypted \<Rightarrow> Inr decrypted)))"

text \<open>
  A small authenticated cipher to run the service on concrete inputs: the ciphertext is
  the plaintext with every byte shifted by the first key byte, the tag is sixteen copies
  of the byte sum of key, IV and ciphertext modulo 256. It takes the key and IV lengths the
  service uses.
\<close>

definition byte_sum :: "string \<Rightarrow> nat" where
  "byte_sum bs = sum_list (map of_char bs)"

definition shift_byte :: "nat \<Rightarrow> char \<Rightarrow> char" where
  "shift_byte k c = char_of (of_char c + k)"

definition toy_tag :: "string \<Rightarrow> string \<Rightarrow> string \<Rightarrow> string" where
  "toy_tag key iv ct = replicate 16 (char_of (byte_sum (key @ iv @ ct) mod 256))"

definition toy_aead :: aead where
  "toy_aead =
     \<lparr>seal = (\<lambda>key iv p.
        if length key = 32 \<and> length iv = 16
        then (let ct = map (shift_byte (of_char (hd key))) p in Some (ct, toy_tag key iv ct))
        else None),
      unseal = (\<lambda>key iv tag ct.
        if length key = 32 \<and> length iv = 16 \<and> tag = toy_tag key iv ct
        then Some (map (shift_byte (256 - of_char (hd key))) ct)
        else None)\<rparr>"

section \<open>Notions used in the statements about sessions\<close>

text \<open>
  \<open>live_sessions R ids\<close>: the records stored under the listed ids, in the order of the
  list. \<open>index_ok R uid ids\<close>: the listed ids are distinct, and every record stored
  under a listed id carries that id and belongs to the user, as \<open>createSession\<close>
  writes it. \<open>new_session\<close>: the record \<open>createSession\<close> builds.
\<close>

definition live_sessions :: "redis \<Rightarrow> string list \<Rightarrow> SessionData list" where
  "live_sessions R ids =
     List.map_filter (\<lambda>x. case R (getSessionKey x) of Some (Json s, t) \<Rightarrow> Some s | _ \<Rightarrow> None) ids"


definition new_session :: "string \<Rightarrow> int \<Rightarrow> CreateSessionOptions \<Rightarrow> SessionData" where
  "new_session sid now opts =
     \<lparr>sessionId = sid, userId = o_userId opts, email = o_email opts,
      role = o_role opts, tenantId = o_tenantId opts, createdAt = now,
      lastAccessedAt = now, userAgent = o_userAgent opts,
      ipAddress = o_ipAddress opts, metadata = o_metadata opts\<rparr>"

section \<open>Example data\<close>

definition session0 :: SessionData where
  "session0 =
     \<lparr>sessionId = ''abc'', userId = ''u1'', email = ''a@b.c'', role = ''creator'',
      tenantId = None, createdAt = 1000, lastAccessedAt = 1000, userAgent = None,
      ipAddress = None, metadata = Some [(''theme'', ''1''), (''lang'', ''2'')]\<rparr>"

definition req0 :: Request where
  "req0 = \<lparr>x_forwarded_for = Some ''10.0.0.7, 172.16.0.1'', ip = Some ''192.168.1.5'',
            remoteAddress = None, x_session_id = None, authorization = None,
            cookie_sessionId = None, session = None, user = None\<rparr>"

definition payload0 :: JwtPayload where
  "payload0 = \<lparr>sub = ''u9'', p_email = ''j@w.t'', p_role = ''brand_admin'', tenant_id = Some ''t1''\<rparr>"

text \<open>A verifier that accepts exactly one token.\<close>

definition verify0 :: "string \<Rightarrow> JwtPayload option" where
  "verify0 token = (if token = ''good.jwt'' then Some payload0 else None)"


definition opts0 :: CreateSessionOptions where
  "opts0 = \<lparr>o_userId = ''u1'', o_email = ''a@b.c'', o_role = ''creator'', o_tenantId = None,
             o_userAgent = None, o_ipAddress = None, o_metadata = None\<rparr>"


text \<open>A service with a time to live of 500 seconds, and the store it reaches by creating
  a session, a second one 300 seconds later, and letting another 300 seconds pass: the
  first record has expired, the index (refreshed by the second creation) still lists it.\<close>

definition short_service :: SessionService where
  "short_service = \<lparr>SESSION_TTL = 500\<rparr>"

definition stale_store :: redis where
  "stale_store =
     elapse 300 (snd (projr (createSession short_service ''s2'' 2000 opts0
       (elapse 300 (snd (projr (createSession short_service ''s1'' 1000 opts0 Map.empty)))))))"


definition key0 :: string where
  "key0 = replicate 32 CHR ''k''"

definition iv0 :: string where
  "iv0 = ''0123456789abcdef''"

section \<open>Session lookup\<close>

lemmas io_defs = ret_def throw_def bnd_def

text \<open>
  C1. When no record is stored under the session's key, \<open>getSession\<close> returns null
  without raising and leaves the store as it is, and \<open>validateSession\<close> raises the
  \<open>UnauthorizedException\<close> "Invalid or expired session". When a record is stored there
  (and the configured time to live is positive), \<open>getSession\<close> returns it with
  \<open>lastAccessedAt\<close> set to the current time and stores that record again with the full
  time to live, and \<open>validateSession\<close> returns the same session without raising.
\<close>

theorem getSession_validateSession:
  "(R (getSessionKey sid) = None \<longrightarrow>
      getSession svc now sid R = Inr (None, R) \<and>
      validateSession svc now sid R = Inl (UnauthorizedException ''Invalid or expired session''))
   \<and> (R (getSessionKey sid) = Some (Json s, t) \<and> 0 < SESSION_TTL svc \<longrightarrow>
      getSession svc now sid R =
        Inr (Some (s\<lparr>lastAccessedAt := now\<rparr>),
             R(getSessionKey sid \<mapsto> (Json (s\<lparr>lastAccessedAt := now\<rparr>), Some (SESSION_TTL svc)))) \<and>
      validateSession svc now sid R =
        Inr (s\<lparr>lastAccessedAt := now\<rparr>,
             R(getSessionKey sid \<mapsto> (Json (s\<lparr>lastAccessedAt := now\<rparr>), Some (SESSION_TTL svc)))))"
  by (simp add: getSession_def validateSession_def getJson_def get_key_def setJson_def
        set_key_def io_defs Let_def)

theorem getSession_validateSession_witness:
  "getSession default_service 5000 ''abc'' Map.empty = Inr (None, Map.empty) \<and>
   validateSession default_service 5000 ''abc'' Map.empty =
     Inl (UnauthorizedException ''Invalid or expired session'') \<and>
   validateSession default_service 5000 ''abc'' [''session:abc'' \<mapsto> (Json session0, Some 10)] =
     Inr (session0\<lparr>lastAccessedAt := 5000\<rparr>,
          [''session:abc'' \<mapsto> (Json (session0\<lparr>lastAccessedAt := 5000\<rparr>), Some 604800)])"
  using getSession_validateSession
          [where R = Map.empty and sid = "''abc''" and svc = default_service and now = 5000]
        getSession_validateSession
          [where R = "[''session:abc'' \<mapsto> (Json session0, Some 10)]" and sid = "''abc''"
             and s = session0 and t = "Some 10" and svc = default_service and now = 5000]
  by (simp add: getSessionKey_def default_service_def)

section \<open>Metadata updates\<close>

lemma map_of_map_val:
  "map_of (map (\<lambda>(k, v). (k, f k v)) xs) k = map_option (f k) (map_of xs k)"
  by (induction xs) auto

lemma map_of_filter_key:
  "map_of (filter (\<lambda>(k, v). P k) xs) k = (if P k then map_of xs k else None)"
  by (induction xs) auto

lemma map_of_spread:
  "map_of (spread a b) = map_of (case a of None \<Rightarrow> [] | Some kvs \<Rightarrow> kvs) ++ map_of b"
proof
  fix k
  let ?a = "case a of None \<Rightarrow> [] | Some kvs \<Rightarrow> kvs"
  have 1: "map_of (filter (\<lambda>(k, v). map_of ?a k = None) b) k
             = (if map_of ?a k = None then map_of b k else None)"
    by (rule map_of_filter_key)
  have 2: "map_of (map (\<lambda>(k, v). (k, case map_of b k of Some v' \<Rightarrow> v' | None \<Rightarrow> v)) ?a) k
             = map_option (\<lambda>v. case map_of b k of Some v' \<Rightarrow> v' | None \<Rightarrow> v) (map_of ?a k)"
    by (rule map_of_map_val)
  show "map_of (spread a b) k = (map_of ?a ++ map_of b) k"
    unfolding spread_def Let_def map_of_append
    using 1 2 by (auto simp: map_add_def split: option.splits)
qed

text \<open>
  C10. For a session stored under its key (and a positive configured time to live),
  \<open>updateSessionMetadata\<close> returns true and stores, with the full time to live, the
  record whose metadata is the old metadata overridden by the patch, whose
  \<open>lastAccessedAt\<close> is the current time (so no session last accessed up to now sorts
  after it in the eviction order), and whose \<open>sessionId\<close>, \<open>userId\<close>, \<open>email\<close>, \<open>role\<close>,
  \<open>tenantId\<close>, \<open>createdAt\<close>, \<open>userAgent\<close> and \<open>ipAddress\<close> are the old ones; no other key
  changes. When no record is stored there, it returns false and the store is unchanged.
\<close>

theorem updateSessionMetadata_effect:
  "(R (getSessionKey sid) = Some (Json s, t) \<and> 0 < SESSION_TTL svc \<longrightarrow>
      (\<exists>s'. updateSessionMetadata svc now sid patch R =
               Inr (True, R(getSessionKey sid \<mapsto> (Json s', Some (SESSION_TTL svc)))) \<and>
            (\<exists>m. metadata s' = Some m \<and>
                 map_of m = map_of (case metadata s of None \<Rightarrow> [] | Some kvs \<Rightarrow> kvs)
                            ++ map_of patch) \<and>
            lastAccessedAt s' = now \<and>
            (\<forall>x. lastAccessedAt x \<le> now \<longrightarrow> lastAccessedAt x \<le> lastAccessedAt s') \<and>
            sessionId s' = sessionId s \<and> userId s' = userId s \<and> email s' = email s \<and>
            role s' = role s \<and> tenantId s' = tenantId s \<and> createdAt s' = createdAt s \<and>
            userAgent s' = userAgent s \<and> ipAddress s' = ipAddress s))
   \<and> (R (getSessionKey sid) = None \<longrightarrow>
        updateSessionMetadata svc now sid patch R = Inr (False, R))"
proof (intro conjI impI)
  assume h: "R (getSessionKey sid) = Some (Json s, t) \<and> 0 < SESSION_TTL svc"
  let ?s' = "s\<lparr>metadata := Some (spread (metadata s) patch), lastAccessedAt := now\<rparr>"
  have "updateSessionMetadata svc now sid patch R =
          Inr (True, R(getSessionKey sid \<mapsto> (Json ?s', Some (SESSION_TTL svc))))"
    using h by (simp add: updateSessionMetadata_def getJson_def get_key_def setJson_def
                  set_key_def io_defs Let_def)
  then show "\<exists>s'. updateSessionMetadata svc now sid patch R =
               Inr (True, R(getSessionKey sid \<mapsto> (Json s', Some (SESSION_TTL svc)))) \<and>
            (\<exists>m. metadata s' = Some m \<and>
                 map_of m = map_of (case metadata s of None \<Rightarrow> [] | Some kvs \<Rightarrow> kvs)
                            ++ map_of patch) \<and>
            lastAccessedAt s' = now \<and>
            (\<forall>x. lastAccessedAt x \<le> now \<longrightarrow> lastAccessedAt x \<le> lastAccessedAt s') \<and>
            sessionId s' = sessionId s \<and> userId s' = userId s \<and> email s' = email s \<and>
            role s' = role s \<and> tenantId s' = tenantId s \<and> createdAt s' = createdAt s \<and>
            userAgent s' = userAgent s \<and> ipAddress s' = ipAddress s"
    by (intro exI [of _ ?s']) (simp add: map_of_spread)
next
  assume "R (getSessionKey sid) = None"
  then show "updateSessionMetadata svc now sid patch R = Inr (False, R)"
    by (simp add: updateSessionMetadata_def getJson_def get_key_def io_defs)
qed

theorem updateSessionMetadata_effect_witness:
  "updateSessionMetadata default_service 7000 ''abc'' [(''lang'', ''3'')]
       [''session:abc'' \<mapsto> (Json session0, Some 10)] =
     Inr (True, [''session:abc'' \<mapsto>
            (Json (session0\<lparr>metadata := Some [(''theme'', ''1''), (''lang'', ''3'')],
                             lastAccessedAt := 7000\<rparr>), Some 604800)]) \<and>
   updateSessionMetadata default_service 7000 ''abc'' [(''lang'', ''3'')] Map.empty =
     Inr (False, Map.empty)"
proof -
  let ?R = "[''session:abc'' \<mapsto> (Json session0, Some 10)]"
  have k: "getSessionKey ''abc'' = ''session:abc''"
    by (simp add: getSessionKey_def)
  have a: "?R (getSessionKey ''abc'') = Some (Json session0, Some 10)
           \<and> 0 < SESSION_TTL default_service"
    by (simp add: k default_service_def)
  have b: "Map.empty (getSessionKey ''abc'') = (None :: (rvalue \<times> nat option) option)"
    by simp
  from updateSessionMetadata_effect
         [where R = ?R and sid = "''abc''" and s = session0 and t = "Some 10"
            and svc = default_service and now = 7000 and patch = "[(''lang'', ''3'')]"] a
  obtain s' where
    1: "updateSessionMetadata default_service 7000 ''abc'' [(''lang'', ''3'')] ?R =
          Inr (True, ?R(getSessionKey ''abc'' \<mapsto> (Json s', Some (SESSION_TTL default_service))))"
    by blast
  have 2: "updateSessionMetadata default_service 7000 ''abc'' [(''lang'', ''3'')] ?R =
          Inr (True, [''session:abc'' \<mapsto>
            (Json (session0\<lparr>metadata := Some [(''theme'', ''1''), (''lang'', ''3'')],
                             lastAccessedAt := 7000\<rparr>), Some 604800)])"
    by (simp add: updateSessionMetadata_def getJson_def get_key_def setJson_def
          set_key_def io_defs Let_def k default_service_def session0_def spread_def)
  from updateSessionMetadata_effect
         [where R = Map.empty and sid = "''abc''" and svc = default_service and now = 7000
            and patch = "[(''lang'', ''3'')]"] b
  have 3: "updateSessionMetadata default_service 7000 ''abc'' [(''lang'', ''3'')] Map.empty =
             Inr (False, Map.empty)"
    by blast
  from 1 2 3 show ?thesis by simp
qed

section \<open>Rate limiting\<close>

lemmas rl_defs = RateLimitMiddleware_use_def AuthRateLimitMiddleware_use_def
  RateLimitMiddleware_config_def AuthRateLimitMiddleware_config_def window_seconds_def
  attempt_def catch_block_def incr_def expire_def ttl_def setHeader_def no_faults_def
  throw_def Let_def












lemma getClientIp_req0: "getClientIp req0 = ''10.0.0.7''"
  by (simp add: getClientIp_def req0_def trim_def is_space_def)



lemmas rl_fault_defs = RateLimitMiddleware_use_def AuthRateLimitMiddleware_use_def
  RateLimitMiddleware_config_def AuthRateLimitMiddleware_config_def window_seconds_def
  attempt_def catch_block_def incr_def expire_def ttl_def setHeader_def
  throw_def Let_def

text \<open>
  C7. Fail open, for both limiters. If \<open>incr\<close> fails the request is let through and
  nothing changes; if \<open>ttl\<close> fails, or \<open>expire\<close> fails on a first hit, or the key holds a
  value that is not a counter, the request is let through. The only exception a limiter
  raises is its own 429, and only when no call failed and the count is above the cap.
\<close>

theorem rate_limit_fail_open:
  "(incr_fails f \<longrightarrow>
      RateLimitMiddleware_use f now req res R = (Next, res, R) \<and>
      AuthRateLimitMiddleware_use f now req res R = (Next, res, R))
   \<and> (ttl_fails f \<longrightarrow>
      fst (RateLimitMiddleware_use f now req res R) = Next \<and>
      fst (AuthRateLimitMiddleware_use f now req res R) = Next)
   \<and> (expire_fails f \<and> R (''ratelimit:'' @ getClientIp req) = None \<longrightarrow>
      fst (RateLimitMiddleware_use f now req res R) = Next)
   \<and> (expire_fails f \<and> R (''ratelimit:auth:'' @ getClientIp req) = None \<longrightarrow>
      fst (AuthRateLimitMiddleware_use f now req res R) = Next)
   \<and> (R (''ratelimit:'' @ getClientIp req) = Some (Json s, t) \<or>
       R (''ratelimit:'' @ getClientIp req) = Some (Members xs, t) \<longrightarrow>
      RateLimitMiddleware_use f now req res R = (Next, res, R))
   \<and> (R (''ratelimit:auth:'' @ getClientIp req) = Some (Json s, t) \<or>
       R (''ratelimit:auth:'' @ getClientIp req) = Some (Members xs, t) \<longrightarrow>
      AuthRateLimitMiddleware_use f now req res R = (Next, res, R))
   \<and> (fst (RateLimitMiddleware_use f now req res R) \<noteq> Next \<longrightarrow>
        \<not> incr_fails f \<and> \<not> ttl_fails f \<and>
        (\<exists>n t' r. R (''ratelimit:'' @ getClientIp req) = Some (Counter n, t') \<and> 100 < n + 1 \<and>
           fst (RateLimitMiddleware_use f now req res R) =
             Throw (TooManyRequests ''Too many requests, please try again later.'' r)))
   \<and> (fst (AuthRateLimitMiddleware_use f now req res R) \<noteq> Next \<longrightarrow>
        \<not> incr_fails f \<and> \<not> ttl_fails f \<and>
        (\<exists>n t' r. R (''ratelimit:auth:'' @ getClientIp req) = Some (Counter n, t') \<and> 10 < n + 1 \<and>
           fst (AuthRateLimitMiddleware_use f now req res R) =
             Throw (TooManyRequests ''Too many login attempts, please try again later.'' r)))"
proof (intro conjI)
  show "incr_fails f \<longrightarrow>
      RateLimitMiddleware_use f now req res R = (Next, res, R) \<and>
      AuthRateLimitMiddleware_use f now req res R = (Next, res, R)"
    by (simp add: rl_fault_defs)
  show "ttl_fails f \<longrightarrow>
      fst (RateLimitMiddleware_use f now req res R) = Next \<and>
      fst (AuthRateLimitMiddleware_use f now req res R) = Next"
    by (auto simp: rl_fault_defs split: option.splits rvalue.splits prod.splits sum.splits)
  show "expire_fails f \<and> R (''ratelimit:'' @ getClientIp req) = None \<longrightarrow>
      fst (RateLimitMiddleware_use f now req res R) = Next"
    by (simp add: rl_fault_defs)
  show "expire_fails f \<and> R (''ratelimit:auth:'' @ getClientIp req) = None \<longrightarrow>
      fst (AuthRateLimitMiddleware_use f now req res R) = Next"
    by (simp add: rl_fault_defs)
  show "R (''ratelimit:'' @ getClientIp req) = Some (Json s, t) \<or>
       R (''ratelimit:'' @ getClientIp req) = Some (Members xs, t) \<longrightarrow>
      RateLimitMiddleware_use f now req res R = (Next, res, R)"
    by (auto simp: rl_fault_defs)
  show "R (''ratelimit:auth:'' @ getClientIp req) = Some (Json s, t) \<or>
       R (''ratelimit:auth:'' @ getClientIp req) = Some (Members xs, t) \<longrightarrow>
      AuthRateLimitMiddleware_use f now req res R = (Next, res, R)"
    by (auto simp: rl_fault_defs)
  show "fst (RateLimitMiddleware_use f now req res R) \<noteq> Next \<longrightarrow>
        \<not> incr_fails f \<and> \<not> ttl_fails f \<and>
        (\<exists>n t' r. R (''ratelimit:'' @ getClientIp req) = Some (Counter n, t') \<and> 100 < n + 1 \<and>
           fst (RateLimitMiddleware_use f now req res R) =
             Throw (TooManyRequests ''Too many requests, please try again later.'' r))"
    by (auto simp: rl_fault_defs split: option.splits rvalue.splits prod.splits sum.splits if_splits)
  show "fst (AuthRateLimitMiddleware_use f now req res R) \<noteq> Next \<longrightarrow>
        \<not> incr_fails f \<and> \<not> ttl_fails f \<and>
        (\<exists>n t' r. R (''ratelimit:auth:'' @ getClientIp req) = Some (Counter n, t') \<and> 10 < n + 1 \<and>
           fst (AuthRateLimitMiddleware_use f now req res R) =
             Throw (TooManyRequests ''Too many login attempts, please try again later.'' r))"
    by (auto simp: rl_fault_defs split: option.splits rvalue.splits prod.splits sum.splits if_splits)
qed


theorem rate_limit_fail_open_witness:
  "RateLimitMiddleware_use \<lparr>incr_fails = True, expire_fails = False, ttl_fails = False\<rparr> 0 req0
      Map.empty [''ratelimit:10.0.0.7'' \<mapsto> (Counter 500, Some 3)] =
     (Next, Map.empty, [''ratelimit:10.0.0.7'' \<mapsto> (Counter 500, Some 3)]) \<and>
   fst (AuthRateLimitMiddleware_use \<lparr>incr_fails = False, expire_fails = False, ttl_fails = True\<rparr>
          0 req0 Map.empty [''ratelimit:auth:10.0.0.7'' \<mapsto> (Counter 500, Some 3)]) = Next \<and>
   fst (RateLimitMiddleware_use \<lparr>incr_fails = False, expire_fails = True, ttl_fails = False\<rparr>
          0 req0 Map.empty Map.empty) = Next \<and>
   fst (AuthRateLimitMiddleware_use \<lparr>incr_fails = False, expire_fails = True, ttl_fails = False\<rparr>
          0 req0 Map.empty Map.empty) = Next \<and>
   RateLimitMiddleware_use no_faults 0 req0 Map.empty
       [''ratelimit:10.0.0.7'' \<mapsto> (Json session0, None)] =
     (Next, Map.empty, [''ratelimit:10.0.0.7'' \<mapsto> (Json session0, None)]) \<and>
   AuthRateLimitMiddleware_use no_faults 0 req0 Map.empty
       [''ratelimit:auth:10.0.0.7'' \<mapsto> (Members [''abc''], None)] =
     (Next, Map.empty, [''ratelimit:auth:10.0.0.7'' \<mapsto> (Members [''abc''], None)]) \<and>
   fst (RateLimitMiddleware_use no_faults 0 req0 Map.empty
          [''ratelimit:10.0.0.7'' \<mapsto> (Counter 100, Some 30)]) \<noteq> Next \<and>
   fst (AuthRateLimitMiddleware_use no_faults 0 req0 Map.empty
          [''ratelimit:auth:10.0.0.7'' \<mapsto> (Counter 10, Some 30)]) \<noteq> Next \<and>
   \<not> incr_fails no_faults \<and> \<not> ttl_fails no_faults"
proof -
  have g: "fst (RateLimitMiddleware_use no_faults 0 req0 Map.empty
          [''ratelimit:10.0.0.7'' \<mapsto> (Counter 100, Some 30)]) \<noteq> Next"
    by (simp add: rl_defs getClientIp_req0)
  have a: "fst (AuthRateLimitMiddleware_use no_faults 0 req0 Map.empty
          [''ratelimit:auth:10.0.0.7'' \<mapsto> (Counter 10, Some 30)]) \<noteq> Next"
    by (simp add: rl_defs getClientIp_req0)
  note T1 = rate_limit_fail_open
     [where f = "\<lparr>incr_fails = True, expire_fails = False, ttl_fails = False\<rparr>" and now = 0
        and req = req0 and res = Map.empty
        and R = "[''ratelimit:10.0.0.7'' \<mapsto> (Counter 500, Some 3)]"]
  note T2 = rate_limit_fail_open
     [where f = "\<lparr>incr_fails = False, expire_fails = False, ttl_fails = True\<rparr>" and now = 0
        and req = req0 and res = Map.empty
        and R = "[''ratelimit:auth:10.0.0.7'' \<mapsto> (Counter 500, Some 3)]"]
  note T3 = rate_limit_fail_open
     [where f = "\<lparr>incr_fails = False, expire_fails = True, ttl_fails = False\<rparr>" and now = 0
        and req = req0 and res = Map.empty and R = Map.empty]
  note T4 = rate_limit_fail_open
     [where f = no_faults and now = 0 and req = req0 and res = Map.empty
        and R = "[''ratelimit:10.0.0.7'' \<mapsto> (Json session0, None)]"
        and s = session0 and t = None]
  note T5 = rate_limit_fail_open
     [where f = no_faults and now = 0 and req = req0 and res = Map.empty
        and R = "[''ratelimit:auth:10.0.0.7'' \<mapsto> (Members [''abc''], None)]"
        and xs = "[''abc'']" and t = None]
  note T6 = rate_limit_fail_open
     [where f = no_faults and now = 0 and req = req0 and res = Map.empty
        and R = "[''ratelimit:10.0.0.7'' \<mapsto> (Counter 100, Some 30)]"]
  note T7 = rate_limit_fail_open
     [where f = no_faults and now = 0 and req = req0 and res = Map.empty
        and R = "[''ratelimit:auth:10.0.0.7'' \<mapsto> (Counter 10, Some 30)]"]
  have 1: "RateLimitMiddleware_use \<lparr>incr_fails = True, expire_fails = False, ttl_fails = False\<rparr> 0 req0
      Map.empty [''ratelimit:10.0.0.7'' \<mapsto> (Counter 500, Some 3)] =
     (Next, Map.empty, [''ratelimit:10.0.0.7'' \<mapsto> (Counter 500, Some 3)])"
    using T1 by simp
  have 2: "fst (AuthRateLimitMiddleware_use \<lparr>incr_fails = False, expire_fails = False, ttl_fails = True\<rparr>
          0 req0 Map.empty [''ratelimit:auth:10.0.0.7'' \<mapsto> (Counter 500, Some 3)]) = Next"
    using T2 by simp
  have 3: "fst (RateLimitMiddleware_use \<lparr>incr_fails = False, expire_fails = True, ttl_fails = False\<rparr>
          0 req0 Map.empty Map.empty) = Next \<and>
   fst (AuthRateLimitMiddleware_use \<lparr>incr_fails = False, expire_fails = True, ttl_fails = False\<rparr>
          0 req0 Map.empty Map.empty) = Next"
    using T3 by simp
  have 4: "RateLimitMiddleware_use no_faults 0 req0 Map.empty
       [''ratelimit:10.0.0.7'' \<mapsto> (Json session0, None)] =
     (Next, Map.empty, [''ratelimit:10.0.0.7'' \<mapsto> (Json session0, None)])"
    using T4 by (simp add: getClientIp_req0)
  have 5: "AuthRateLimitMiddleware_use no_faults 0 req0 Map.empty
       [''ratelimit:auth:10.0.0.7'' \<mapsto> (Members [''abc''], None)] =
     (Next, Map.empty, [''ratelimit:auth:10.0.0.7'' \<mapsto> (Members [''abc''], None)])"
    using T5 by (simp add: getClientIp_req0)
  have 6: "\<not> incr_fails no_faults \<and> \<not> ttl_fails no_faults"
    using T6 g T7 a by blast
  show ?thesis using 1 2 3 4 5 6 g a by blast
qed

text \<open>
  C9 (as amended). When no store call of a limiter fails (\<open>INCR\<close> and \<open>TTL\<close> succeed
  on a key that is absent or holds a counter, and so does \<open>EXPIRE\<close> when it is called,
  on the first hit), the response it leaves carries \<open>X-RateLimit-Limit\<close> = cap and
  \<open>X-RateLimit-Remaining\<close> = max(0, cap - count), where count is the counter after the
  increment, whether the request is let through or rejected; the general limiter also
  sets \<open>X-RateLimit-Reset\<close> = now + 1000 times what \<open>TTL\<close> reports for the key (-1 for
  a key without expiry). In every other case, when a store call of a limiter fails (or
  the key does not hold a counter), that limiter sets no header: the response keeps the
  headers it had.
\<close>

theorem rate_limit_headers:
  "(\<not> incr_fails f \<and> \<not> ttl_fails f \<and>
    (R (''ratelimit:'' @ getClientIp req) = None \<and> \<not> expire_fails f \<or>
     R (''ratelimit:'' @ getClientIp req) = Some (Counter n, t) \<and> (n = 0 \<longrightarrow> \<not> expire_fails f)) \<longrightarrow>
      (\<exists>count t'.
         count = (if R (''ratelimit:'' @ getClientIp req) = None then 1 else n + 1) \<and>
         snd (snd (RateLimitMiddleware_use f now req res R)) (''ratelimit:'' @ getClientIp req) =
           Some (Counter count, t') \<and>
         fst (snd (RateLimitMiddleware_use f now req res R)) =
           res(''X-RateLimit-Limit'' \<mapsto> 100,
               ''X-RateLimit-Remaining'' \<mapsto> max 0 (100 - count),
               ''X-RateLimit-Reset'' \<mapsto>
                  now + (case t' of None \<Rightarrow> - 1 | Some x \<Rightarrow> int x) * 1000)))
   \<and> (\<not> incr_fails f \<and> \<not> ttl_fails f \<and>
    (R (''ratelimit:auth:'' @ getClientIp req) = None \<and> \<not> expire_fails f \<or>
     R (''ratelimit:auth:'' @ getClientIp req) = Some (Counter n, t) \<and> (n = 0 \<longrightarrow> \<not> expire_fails f)) \<longrightarrow>
      (\<exists>count t'.
         count = (if R (''ratelimit:auth:'' @ getClientIp req) = None then 1 else n + 1) \<and>
         snd (snd (AuthRateLimitMiddleware_use f now req res R))
             (''ratelimit:auth:'' @ getClientIp req) = Some (Counter count, t') \<and>
         fst (snd (AuthRateLimitMiddleware_use f now req res R)) ''X-RateLimit-Limit'' = Some 10 \<and>
         fst (snd (AuthRateLimitMiddleware_use f now req res R)) ''X-RateLimit-Remaining'' =
           Some (max 0 (10 - count))))
   \<and> (incr_fails f \<or> ttl_fails f \<or>
       (expire_fails f \<and> (R (''ratelimit:'' @ getClientIp req) = None \<or>
                           R (''ratelimit:'' @ getClientIp req) = Some (Counter 0, t))) \<or>
       R (''ratelimit:'' @ getClientIp req) = Some (Json s, t) \<or>
       R (''ratelimit:'' @ getClientIp req) = Some (Members xs, t) \<longrightarrow>
      fst (snd (RateLimitMiddleware_use f now req res R)) = res)
   \<and> (incr_fails f \<or> ttl_fails f \<or>
       (expire_fails f \<and> (R (''ratelimit:auth:'' @ getClientIp req) = None \<or>
                           R (''ratelimit:auth:'' @ getClientIp req) = Some (Counter 0, t))) \<or>
       R (''ratelimit:auth:'' @ getClientIp req) = Some (Json s, t) \<or>
       R (''ratelimit:auth:'' @ getClientIp req) = Some (Members xs, t) \<longrightarrow>
      fst (snd (AuthRateLimitMiddleware_use f now req res R)) = res)"
proof (intro conjI impI)
  assume "\<not> incr_fails f \<and> \<not> ttl_fails f \<and>
    (R (''ratelimit:'' @ getClientIp req) = None \<and> \<not> expire_fails f \<or>
     R (''ratelimit:'' @ getClientIp req) = Some (Counter n, t) \<and> (n = 0 \<longrightarrow> \<not> expire_fails f))"
  then show "\<exists>count t'.
         count = (if R (''ratelimit:'' @ getClientIp req) = None then 1 else n + 1) \<and>
         snd (snd (RateLimitMiddleware_use f now req res R)) (''ratelimit:'' @ getClientIp req) =
           Some (Counter count, t') \<and>
         fst (snd (RateLimitMiddleware_use f now req res R)) =
           res(''X-RateLimit-Limit'' \<mapsto> 100,
               ''X-RateLimit-Remaining'' \<mapsto> max 0 (100 - count),
               ''X-RateLimit-Reset'' \<mapsto>
                  now + (case t' of None \<Rightarrow> - 1 | Some x \<Rightarrow> int x) * 1000)"
    by (cases t) (auto simp: rl_fault_defs)
next
  assume "\<not> incr_fails f \<and> \<not> ttl_fails f \<and>
    (R (''ratelimit:auth:'' @ getClientIp req) = None \<and> \<not> expire_fails f \<or>
     R (''ratelimit:auth:'' @ getClientIp req) = Some (Counter n, t) \<and> (n = 0 \<longrightarrow> \<not> expire_fails f))"
  then show "\<exists>count t'.
         count = (if R (''ratelimit:auth:'' @ getClientIp req) = None then 1 else n + 1) \<and>
         snd (snd (AuthRateLimitMiddleware_use f now req res R))
             (''ratelimit:auth:'' @ getClientIp req) = Some (Counter count, t') \<and>
         fst (snd (AuthRateLimitMiddleware_use f now req res R)) ''X-RateLimit-Limit'' = Some 10 \<and>
         fst (snd (AuthRateLimitMiddleware_use f now req res R)) ''X-RateLimit-Remaining'' =
           Some (max 0 (10 - count))"
    by (cases t) (auto simp: rl_fault_defs)
next
  assume "incr_fails f \<or> ttl_fails f \<or>
       (expire_fails f \<and> (R (''ratelimit:'' @ getClientIp req) = None \<or>
                           R (''ratelimit:'' @ getClientIp req) = Some (Counter 0, t))) \<or>
       R (''ratelimit:'' @ getClientIp req) = Some (Json s, t) \<or>
       R (''ratelimit:'' @ getClientIp req) = Some (Members xs, t)"
  then show "fst (snd (RateLimitMiddleware_use f now req res R)) = res"
    by (auto simp: rl_fault_defs split: option.splits rvalue.splits prod.splits sum.splits)
next
  assume "incr_fails f \<or> ttl_fails f \<or>
       (expire_fails f \<and> (R (''ratelimit:auth:'' @ getClientIp req) = None \<or>
                           R (''ratelimit:auth:'' @ getClientIp req) = Some (Counter 0, t))) \<or>
       R (''ratelimit:auth:'' @ getClientIp req) = Some (Json s, t) \<or>
       R (''ratelimit:auth:'' @ getClientIp req) = Some (Members xs, t)"
  then show "fst (snd (AuthRateLimitMiddleware_use f now req res R)) = res"
    by (auto simp: rl_fault_defs split: option.splits rvalue.splits prod.splits sum.splits)
qed


theorem rate_limit_headers_witness:
  "fst (snd (RateLimitMiddleware_use no_faults 5 req0 Map.empty Map.empty)) =
     [''X-RateLimit-Limit'' \<mapsto> 100, ''X-RateLimit-Remaining'' \<mapsto> 99,
      ''X-RateLimit-Reset'' \<mapsto> 60005] \<and>
   fst (snd (RateLimitMiddleware_use no_faults 5 req0 Map.empty
      [''ratelimit:10.0.0.7'' \<mapsto> (Counter 120, Some 7)])) =
     [''X-RateLimit-Limit'' \<mapsto> 100, ''X-RateLimit-Remaining'' \<mapsto> 0,
      ''X-RateLimit-Reset'' \<mapsto> 7005] \<and>
   fst (snd (AuthRateLimitMiddleware_use no_faults 5 req0 Map.empty
      [''ratelimit:auth:10.0.0.7'' \<mapsto> (Counter 4, None)])) ''X-RateLimit-Remaining'' = Some 5 \<and>
   fst (snd (AuthRateLimitMiddleware_use
               \<lparr>incr_fails = True, expire_fails = False, ttl_fails = False\<rparr> 5 req0
               [''X-RateLimit-Limit'' \<mapsto> 100, ''X-RateLimit-Remaining'' \<mapsto> 99,
                ''X-RateLimit-Reset'' \<mapsto> 60005] Map.empty)) =
     [''X-RateLimit-Limit'' \<mapsto> 100, ''X-RateLimit-Remaining'' \<mapsto> 99,
      ''X-RateLimit-Reset'' \<mapsto> 60005] \<and>
   fst (snd (RateLimitMiddleware_use
               \<lparr>incr_fails = False, expire_fails = False, ttl_fails = True\<rparr> 5 req0
               Map.empty Map.empty)) = Map.empty"
proof -
  let ?k = "''ratelimit:10.0.0.7''" and ?ka = "''ratelimit:auth:10.0.0.7''"
  note A = rate_limit_headers [where f = no_faults and now = 5 and req = req0
             and res = Map.empty and R = Map.empty, THEN conjunct1]
  note B = rate_limit_headers [where f = no_faults and now = 5 and req = req0
             and res = Map.empty and R = "[?k \<mapsto> (Counter 120, Some 7)]"
             and n = 120 and t = "Some 7", THEN conjunct1]
  note C = rate_limit_headers [where f = no_faults and now = 5 and req = req0
             and res = Map.empty and R = "[?ka \<mapsto> (Counter 4, None)]"
             and n = 4 and t = None, THEN conjunct2, THEN conjunct1]
  note D = rate_limit_headers [where f = "\<lparr>incr_fails = True, expire_fails = False, ttl_fails = False\<rparr>"
             and now = 5 and req = req0 and R = Map.empty
             and res = "[''X-RateLimit-Limit'' \<mapsto> 100, ''X-RateLimit-Remaining'' \<mapsto> 99,
                         ''X-RateLimit-Reset'' \<mapsto> 60005]",
             THEN conjunct2, THEN conjunct2, THEN conjunct2]
  note E = rate_limit_headers [where f = "\<lparr>incr_fails = False, expire_fails = False, ttl_fails = True\<rparr>"
             and now = 5 and req = req0 and R = Map.empty and res = Map.empty,
             THEN conjunct2, THEN conjunct2, THEN conjunct1]
  have sa: "snd (snd (RateLimitMiddleware_use no_faults 5 req0 Map.empty Map.empty)) ?k
              = Some (Counter 1, Some 60)"
    by (simp add: rl_defs getClientIp_req0)
  have sb: "snd (snd (RateLimitMiddleware_use no_faults 5 req0 Map.empty
              [?k \<mapsto> (Counter 120, Some 7)])) ?k = Some (Counter 121, Some 7)"
    by (simp add: rl_defs getClientIp_req0)
  have a: "fst (snd (RateLimitMiddleware_use no_faults 5 req0 Map.empty Map.empty)) =
     [''X-RateLimit-Limit'' \<mapsto> 100, ''X-RateLimit-Remaining'' \<mapsto> 99,
      ''X-RateLimit-Reset'' \<mapsto> 60005]"
    using A sa by (auto simp: getClientIp_req0 no_faults_def)
  have b: "fst (snd (RateLimitMiddleware_use no_faults 5 req0 Map.empty
      [?k \<mapsto> (Counter 120, Some 7)])) =
     [''X-RateLimit-Limit'' \<mapsto> 100, ''X-RateLimit-Remaining'' \<mapsto> 0,
      ''X-RateLimit-Reset'' \<mapsto> 7005]"
    using B sb by (auto simp: getClientIp_req0 no_faults_def)
  have c: "fst (snd (AuthRateLimitMiddleware_use no_faults 5 req0 Map.empty
      [?ka \<mapsto> (Counter 4, None)])) ''X-RateLimit-Remaining'' = Some 5"
    using C by (auto simp: getClientIp_req0 no_faults_def)
  have d: "fst (snd (AuthRateLimitMiddleware_use
               \<lparr>incr_fails = True, expire_fails = False, ttl_fails = False\<rparr> 5 req0
               [''X-RateLimit-Limit'' \<mapsto> 100, ''X-RateLimit-Remaining'' \<mapsto> 99,
                ''X-RateLimit-Reset'' \<mapsto> 60005] Map.empty)) =
     [''X-RateLimit-Limit'' \<mapsto> 100, ''X-RateLimit-Remaining'' \<mapsto> 99,
      ''X-RateLimit-Reset'' \<mapsto> 60005]"
    using D by simp
  have e: "fst (snd (RateLimitMiddleware_use
               \<lparr>incr_fails = False, expire_fails = False, ttl_fails = True\<rparr> 5 req0
               Map.empty Map.empty)) = Map.empty"
    using E by simp
  show ?thesis using a b c d e by blast
qed

text \<open>
  The claim as stated fails: the auth limiter sets no \<open>X-RateLimit-Reset\<close>, and a
  request let through because the store failed carries no rate-limit header at all.
\<close>

theorem rate_limit_headers_counterexample:
  "fst (snd (AuthRateLimitMiddleware_use no_faults 5 req0 Map.empty Map.empty))
     ''X-RateLimit-Reset'' = None \<and>
   fst (snd (RateLimitMiddleware_use
               \<lparr>incr_fails = True, expire_fails = False, ttl_fails = False\<rparr>
               5 req0 Map.empty Map.empty)) ''X-RateLimit-Limit'' = None"
  by (simp add: rl_defs getClientIp_req0)

section \<open>The hybrid guard\<close>

lemmas guard_defs = HybridAuthGuard_canActivate_def jwt_path_def extractSessionId_def
  extractJwt_def validateSession_def getSession_def getJson_def get_key_def setJson_def
  set_key_def io_defs Let_def

text \<open>
  C2. The hybrid guard tries the session first. When a session id arrives in the
  \<open>x-session-id\<close> header, or else in the cookie, and a record is stored under it, the
  request is authenticated with the identity \<open>{userId, email, role, tenantId,
  sessionId}\<close> of that session, whatever the \<open>Authorization\<close> header holds. When there
  is no session id, or no record under it, the guard does not reject but goes on to the
  bearer token: without one it raises "No authentication credentials provided"; with a
  token the verifier accepts, the request is authenticated with the identity of the
  payload, which has no \<open>sessionId\<close>, and the store is untouched; with a token the
  verifier refuses it raises "Invalid or expired token".
\<close>

theorem hybrid_guard:
  "((x_session_id request = Some sid
       \<or> (\<not> truthy (x_session_id request) \<and> cookie_sessionId request = Some sid))
      \<and> sid \<noteq> [] \<and> R (getSessionKey sid) = Some (Json s, t) \<and> 0 < SESSION_TTL svc \<longrightarrow>
      HybridAuthGuard_canActivate svc verify now request R =
        (Inr (request\<lparr>session := Some (s\<lparr>lastAccessedAt := now\<rparr>),
                      user := Some \<lparr>i_userId = userId s, i_email = email s, i_role = role s,
                                    i_tenantId = tenantId s, i_sessionId = Some (sessionId s)\<rparr>\<rparr>),
         R(getSessionKey sid \<mapsto> (Json (s\<lparr>lastAccessedAt := now\<rparr>), Some (SESSION_TTL svc)))))
   \<and> (((\<not> truthy (x_session_id request) \<and> \<not> truthy (cookie_sessionId request))
        \<or> (extractSessionId request = Some sid \<and> R (getSessionKey sid) = None)) \<longrightarrow>
      (\<not> truthy (extractJwt request) \<longrightarrow>
         HybridAuthGuard_canActivate svc verify now request R =
           (Inl (UnauthorizedException ''No authentication credentials provided''), R))
      \<and> (authorization request = Some (''Bearer '' @ token) \<and> token \<noteq> []
           \<and> verify token = Some payload \<longrightarrow>
         HybridAuthGuard_canActivate svc verify now request R =
           (Inr (request\<lparr>user := Some \<lparr>i_userId = sub payload, i_email = p_email payload,
                                      i_role = p_role payload, i_tenantId = tenant_id payload,
                                      i_sessionId = None\<rparr>\<rparr>), R))
      \<and> (authorization request = Some (''Bearer '' @ token) \<and> token \<noteq> []
           \<and> verify token = None \<longrightarrow>
         HybridAuthGuard_canActivate svc verify now request R =
           (Inl (UnauthorizedException ''Invalid or expired token''), R)))"
  apply (intro conjI impI)
  subgoal by (auto simp: guard_defs split: if_splits)
  subgoal by (auto simp: guard_defs split: if_splits option.splits)
  subgoal by (auto simp: guard_defs split: if_splits option.splits)
  subgoal by (auto simp: guard_defs split: if_splits option.splits)
  done

theorem hybrid_guard_witness:
  "HybridAuthGuard_canActivate default_service verify0 5000
       (req0\<lparr>x_session_id := Some ''abc'', authorization := Some ''Bearer bad.jwt''\<rparr>)
       [''session:abc'' \<mapsto> (Json session0, Some 10)] =
     (Inr (req0\<lparr>x_session_id := Some ''abc'', authorization := Some ''Bearer bad.jwt'',
                 session := Some (session0\<lparr>lastAccessedAt := 5000\<rparr>),
                 user := Some \<lparr>i_userId = ''u1'', i_email = ''a@b.c'', i_role = ''creator'',
                               i_tenantId = None, i_sessionId = Some ''abc''\<rparr>\<rparr>),
      [''session:abc'' \<mapsto> (Json (session0\<lparr>lastAccessedAt := 5000\<rparr>), Some 604800)]) \<and>
   HybridAuthGuard_canActivate default_service verify0 5000
       (req0\<lparr>cookie_sessionId := Some ''abc''\<rparr>) Map.empty =
     (Inl (UnauthorizedException ''No authentication credentials provided''), Map.empty) \<and>
   HybridAuthGuard_canActivate default_service verify0 5000
       (req0\<lparr>authorization := Some ''Bearer good.jwt''\<rparr>) Map.empty =
     (Inr (req0\<lparr>authorization := Some ''Bearer good.jwt'',
                 user := Some \<lparr>i_userId = ''u9'', i_email = ''j@w.t'', i_role = ''brand_admin'',
                               i_tenantId = Some ''t1'', i_sessionId = None\<rparr>\<rparr>), Map.empty) \<and>
   HybridAuthGuard_canActivate default_service verify0 5000
       (req0\<lparr>x_session_id := Some ''abc'', authorization := Some ''Bearer bad.jwt''\<rparr>) Map.empty =
     (Inl (UnauthorizedException ''Invalid or expired token''), Map.empty)"
proof -
  note A = hybrid_guard
    [where request = "req0\<lparr>x_session_id := Some ''abc'', authorization := Some ''Bearer bad.jwt''\<rparr>"
       and sid = "''abc''" and R = "[''session:abc'' \<mapsto> (Json session0, Some 10)]"
       and s = session0 and t = "Some 10" and svc = default_service and verify = verify0
       and now = 5000, THEN conjunct1]
  note B = hybrid_guard
    [where request = "req0\<lparr>cookie_sessionId := Some ''abc''\<rparr>"
       and sid = "''abc''" and R = Map.empty and svc = default_service and verify = verify0
       and now = 5000, THEN conjunct2]
  note C = hybrid_guard
    [where request = "req0\<lparr>authorization := Some ''Bearer good.jwt''\<rparr>"
       and sid = "''abc''" and R = Map.empty and svc = default_service and verify = verify0
       and now = 5000 and token = "''good.jwt''" and payload = payload0, THEN conjunct2]
  note D = hybrid_guard
    [where request = "req0\<lparr>x_session_id := Some ''abc'', authorization := Some ''Bearer bad.jwt''\<rparr>"
       and sid = "''abc''" and R = Map.empty and svc = default_service and verify = verify0
       and now = 5000 and token = "''bad.jwt''", THEN conjunct2]
  have a: "HybridAuthGuard_canActivate default_service verify0 5000
       (req0\<lparr>x_session_id := Some ''abc'', authorization := Some ''Bearer bad.jwt''\<rparr>)
       [''session:abc'' \<mapsto> (Json session0, Some 10)] =
     (Inr (req0\<lparr>x_session_id := Some ''abc'', authorization := Some ''Bearer bad.jwt'',
                 session := Some (session0\<lparr>lastAccessedAt := 5000\<rparr>),
                 user := Some \<lparr>i_userId = ''u1'', i_email = ''a@b.c'', i_role = ''creator'',
                               i_tenantId = None, i_sessionId = Some ''abc''\<rparr>\<rparr>),
      [''session:abc'' \<mapsto> (Json (session0\<lparr>lastAccessedAt := 5000\<rparr>), Some 604800)])"
    using A by (simp add: getSessionKey_def default_service_def session0_def)
  have b: "HybridAuthGuard_canActivate default_service verify0 5000
       (req0\<lparr>cookie_sessionId := Some ''abc''\<rparr>) Map.empty =
     (Inl (UnauthorizedException ''No authentication credentials provided''), Map.empty)"
    using B by (simp add: extractSessionId_def extractJwt_def req0_def)
  have c: "HybridAuthGuard_canActivate default_service verify0 5000
       (req0\<lparr>authorization := Some ''Bearer good.jwt''\<rparr>) Map.empty =
     (Inr (req0\<lparr>authorization := Some ''Bearer good.jwt'',
                 user := Some \<lparr>i_userId = ''u9'', i_email = ''j@w.t'', i_role = ''brand_admin'',
                               i_tenantId = Some ''t1'', i_sessionId = None\<rparr>\<rparr>), Map.empty)"
    using C by (simp add: req0_def verify0_def payload0_def)
  have d: "HybridAuthGuard_canActivate default_service verify0 5000
       (req0\<lparr>x_session_id := Some ''abc'', authorization := Some ''Bearer bad.jwt''\<rparr>) Map.empty =
     (Inl (UnauthorizedException ''Invalid or expired token''), Map.empty)"
    using D by (simp add: extractSessionId_def req0_def verify0_def)
  show ?thesis using a b c d by blast
qed

section \<open>Session housekeeping\<close>

lemma getSessionKey_inj [simp]: "getSessionKey a = getSessionKey b \<longleftrightarrow> a = b"
  by (simp add: getSessionKey_def)

lemma session_key_not_index [simp]:
  "getSessionKey a \<noteq> getUserSessionsKey b" "getUserSessionsKey b \<noteq> getSessionKey a"
  by (simp_all add: getSessionKey_def getUserSessionsKey_def)

lemma del_eq: "del key R = Inr (if R key = None then 0 else 1, R(key := None))"
  by (auto simp: del_def split: option.splits)

lemma destroyAll_loop_eq:
  "destroyAll_loop ids c R =
     Inr (c + length ids, \<lambda>k. if k \<in> getSessionKey ` set ids then None else R k)"
proof (induction ids arbitrary: c R)
  case Nil
  then show ?case by (simp add: ret_def)
next
  case (Cons x xs)
  have e: "(\<lambda>k. if k \<in> getSessionKey ` set xs then None else (R(getSessionKey x := None)) k)
        = (\<lambda>k. if k \<in> getSessionKey ` set (x # xs) then None else R k)"
    by (rule ext) auto
  have "destroyAll_loop (x # xs) c R = destroyAll_loop xs (c + 1) (R(getSessionKey x := None))"
    by (simp add: bnd_def del_eq)
  also have "\<dots> = Inr (c + 1 + length xs,
       \<lambda>k. if k \<in> getSessionKey ` set xs then None else (R(getSessionKey x := None)) k)"
    by (rule Cons.IH)
  also have "\<dots> = Inr (c + length (x # xs),
       \<lambda>k. if k \<in> getSessionKey ` set (x # xs) then None else R k)"
    unfolding e by simp
  finally show ?case .
qed

lemma destroyAllUserSessions_run:
  "R (getUserSessionsKey uid) = Some (Members ids, t) \<or>
   (R (getUserSessionsKey uid) = None \<and> ids = []) \<longrightarrow>
   (\<exists>R'. destroyAllUserSessions uid R = Inr (length ids, R') \<and>
         (\<forall>sid \<in> set ids. R' (getSessionKey sid) = None) \<and>
         R' (getUserSessionsKey uid) = None \<and>
         (\<forall>k. k \<noteq> getUserSessionsKey uid \<and> k \<notin> getSessionKey ` set ids \<longrightarrow> R' k = R k) \<and>
         (distinct ids \<and> (\<forall>sid \<in> set ids. R (getSessionKey sid) \<noteq> None) \<longrightarrow>
            card {k. k \<noteq> getUserSessionsKey uid \<and> R k \<noteq> None \<and> R' k = None} = length ids) \<and>
         getUserSessions uid R' = Inr ([], R'))"
proof
  assume h: "R (getUserSessionsKey uid) = Some (Members ids, t) \<or>
             (R (getUserSessionsKey uid) = None \<and> ids = [])"
  let ?R' = "(\<lambda>k. if k \<in> getSessionKey ` set ids then None else R k)
               (getUserSessionsKey uid := None)"
  have run: "destroyAllUserSessions uid R = Inr (length ids, ?R')"
    using h
    by (auto simp: destroyAllUserSessions_def getUserSessions_def sMembers_def bnd_def ret_def
          destroyAll_loop_eq del_eq)
  have a: "\<forall>sid \<in> set ids. ?R' (getSessionKey sid) = None"
    by simp
  have b: "?R' (getUserSessionsKey uid) = None"
    by simp
  have c: "\<forall>k. k \<noteq> getUserSessionsKey uid \<and> k \<notin> getSessionKey ` set ids \<longrightarrow> ?R' k = R k"
    by simp
  have d: "distinct ids \<and> (\<forall>sid \<in> set ids. R (getSessionKey sid) \<noteq> None) \<longrightarrow>
            card {k. k \<noteq> getUserSessionsKey uid \<and> R k \<noteq> None \<and> ?R' k = None} = length ids"
  proof
    assume l: "distinct ids \<and> (\<forall>sid \<in> set ids. R (getSessionKey sid) \<noteq> None)"
    have "{k. k \<noteq> getUserSessionsKey uid \<and> R k \<noteq> None \<and> ?R' k = None}
            = getSessionKey ` set ids"
      using l by auto
    moreover have "card (getSessionKey ` set ids) = length ids"
      using l by (simp add: card_image inj_on_def distinct_card)
    ultimately show "card {k. k \<noteq> getUserSessionsKey uid \<and> R k \<noteq> None \<and> ?R' k = None}
                       = length ids"
      by simp
  qed
  have e: "getUserSessions uid ?R' = Inr ([], ?R')"
    by (simp add: getUserSessions_def sMembers_def)
  have "destroyAllUserSessions uid R = Inr (length ids, ?R') \<and>
         (\<forall>sid \<in> set ids. ?R' (getSessionKey sid) = None) \<and>
         ?R' (getUserSessionsKey uid) = None \<and>
         (\<forall>k. k \<noteq> getUserSessionsKey uid \<and> k \<notin> getSessionKey ` set ids \<longrightarrow> ?R' k = R k) \<and>
         (distinct ids \<and> (\<forall>sid \<in> set ids. R (getSessionKey sid) \<noteq> None) \<longrightarrow>
            card {k. k \<noteq> getUserSessionsKey uid \<and> R k \<noteq> None \<and> ?R' k = None} = length ids) \<and>
         getUserSessions uid ?R' = Inr ([], ?R')"
    using run a b c d e by (intro conjI)
  then show "\<exists>R'. destroyAllUserSessions uid R = Inr (length ids, R') \<and>
         (\<forall>sid \<in> set ids. R' (getSessionKey sid) = None) \<and>
         R' (getUserSessionsKey uid) = None \<and>
         (\<forall>k. k \<noteq> getUserSessionsKey uid \<and> k \<notin> getSessionKey ` set ids \<longrightarrow> R' k = R k) \<and>
         (distinct ids \<and> (\<forall>sid \<in> set ids. R (getSessionKey sid) \<noteq> None) \<longrightarrow>
            card {k. k \<noteq> getUserSessionsKey uid \<and> R k \<noteq> None \<and> R' k = None} = length ids) \<and>
         getUserSessions uid R' = Inr ([], R')"
    by (rule exI [of _ ?R'])
qed

lemma live_sessions_Nil [simp]: "live_sessions R [] = []"
  by (simp add: live_sessions_def List.map_filter_simps)


















lemmas session_run_defs = createSession_def cleanupOldSessions_def getUserSessionsWithDetails_def
  getUserSessions_def destroySession_def sessionsToRemove_def sort_desc_def sort_asc_def
  MAX_SESSIONS_PER_USER_def getJson_def get_key_def setJson_def set_key_def sAdd_def sMembers_def
  sRem_def del_def expire_def getSessionKey_def getUserSessionsKey_def ret_def throw_def bnd_def
  Let_def default_service_def




lemma create1:
  "createSession short_service ''s1'' 1000 opts0 Map.empty =
     Inr (new_session ''s1'' 1000 opts0,
          [''session:s1'' \<mapsto> (Json (new_session ''s1'' 1000 opts0), Some 500),
           ''user_sessions:u1'' \<mapsto> (Members [''s1''], Some 500)])"
  by (simp add: session_run_defs short_service_def opts0_def new_session_def live_sessions_def)

lemma stale_store_eval:
  "stale_store ''session:s1'' = None"
  "stale_store ''session:s2'' = Some (Json (new_session ''s2'' 2000 opts0), Some 200)"
  "stale_store ''user_sessions:u1'' = Some (Members [''s1'', ''s2''], Some 200)"
  by (simp_all add: stale_store_def create1 session_run_defs elapse_def short_service_def
        opts0_def new_session_def)

text \<open>
  C8. \<open>destroyAllUserSessions\<close> counts every id the index lists, whatever \<open>del\<close>
  returns. On the store above the index lists two ids and only the second still has a
  record: the call returns 2, having destroyed one session (\<open>destroySession\<close> on the
  stale id returns false).
\<close>

theorem destroyAllUserSessions_counts_stale:
  "stale_store ''user_sessions:u1'' = Some (Members [''s1'', ''s2''], Some 200) \<and>
   stale_store ''session:s1'' = None \<and>
   stale_store ''session:s2'' = Some (Json (new_session ''s2'' 2000 opts0), Some 200) \<and>
   \<not> isl (destroyAllUserSessions ''u1'' stale_store) \<and>
   fst (projr (destroyAllUserSessions ''u1'' stale_store)) = 2 \<and>
   snd (projr (destroyAllUserSessions ''u1'' stale_store)) ''session:s2'' = None \<and>
   fst (projr (destroySession ''s1'' stale_store)) = False"
  by (simp add: stale_store_eval destroyAllUserSessions_def getUserSessions_def sMembers_def
        destroySession_def getJson_def get_key_def sRem_def
        del_def getSessionKey_def getUserSessionsKey_def io_defs)

section \<open>Token encryption\<close>

lemma of_char_less: "(of_char c :: nat) < 256"
  using range_nat_of_char by (metis atLeastLessThan_iff rangeI)

lemma of_char_b64:
  "n < 64 \<Longrightarrow> (of_char (b64 n) :: nat) =
     (if n < 26 then 65 + n else if n < 52 then 71 + n else if n < 62 then n - 4
      else if n = 62 then 43 else 47)"
  by (simp add: b64_def)

lemma b64_props:
  assumes n: "n < 64"
  shows "unbase64 (b64 n) = Some n" "b64 n \<noteq> CHR ''=''" "b64 n \<noteq> CHR '':''"
    "CHR '':'' \<noteq> b64 n"
proof -
  show "unbase64 (b64 n) = Some n"
    using n by (auto simp: unbase64_def of_char_b64 Let_def)
  have "(of_char (b64 n) :: nat) \<noteq> of_char CHR ''=''"
    using n by (auto simp: of_char_b64)
  then show "b64 n \<noteq> CHR ''=''" by metis
  have "(of_char (b64 n) :: nat) \<noteq> of_char CHR '':''"
    using n by (auto simp: of_char_b64)
  then show "b64 n \<noteq> CHR '':''" by metis
  then show "CHR '':'' \<noteq> b64 n" by metis
qed

lemma hi_sextet:
  fixes p q :: nat
  assumes "q < 16"
  shows "(p * 16 + q) div 16 = p" "(p * 16 + q) mod 16 = q"
  using assms by simp_all

lemma mid_sextet:
  fixes p q :: nat
  assumes "q < 4"
  shows "(p * 4 + q) div 4 = p" "(p * 4 + q) mod 4 = q"
  using assms by simp_all

lemma byte_parts_lt:
  fixes x y z :: nat
  assumes "x < 256" "y < 256" "z < 256"
  shows "x div 4 < 64" "(x mod 4) * 16 + y div 16 < 64"
    "(y mod 16) * 4 + z div 64 < 64"
    "z mod 64 < 64" "(x mod 4) * 16 < 64" "(y mod 16) * 4 < 64"
proof -
  have a: "x mod 4 < 4" "y mod 16 < 16" by simp_all
  have b: "y div 16 < 16" "z div 64 < 4" using assms by simp_all
  show "x div 4 < 64" using assms by simp
  show "(x mod 4) * 16 + y div 16 < 64" using a(1) b(1) by linarith
  show "(y mod 16) * 4 + z div 64 < 64" using a(2) b(2) by linarith
  show "z mod 64 < 64" by simp
  show "(x mod 4) * 16 < 64" using a(1) by linarith
  show "(y mod 16) * 4 < 64" using a(2) by linarith
qed

lemma byte_parts_eq:
  fixes x y z :: nat
  assumes "x < 256" "y < 256" "z < 256"
  shows "x div 4 * 4 + ((x mod 4) * 16 + y div 16) div 16 = x"
    "(((x mod 4) * 16 + y div 16) mod 16) * 16 + ((y mod 16) * 4 + z div 64) div 4 = y"
    "(((y mod 16) * 4 + z div 64) mod 4) * 64 + z mod 64 = z"
    "x div 4 * 4 + ((x mod 4) * 16) div 16 = x"
    "(((x mod 4) * 16 + y div 16) mod 16) * 16 + ((y mod 16) * 4) div 4 = y"
proof -
  have b: "y div 16 < 16" "z div 64 < 4" using assms by simp_all
  show "x div 4 * 4 + ((x mod 4) * 16 + y div 16) div 16 = x"
    by (simp only: hi_sextet(1) [OF b(1)]) simp
  show "(((x mod 4) * 16 + y div 16) mod 16) * 16 + ((y mod 16) * 4 + z div 64) div 4 = y"
    by (simp only: hi_sextet(2) [OF b(1)] mid_sextet(1) [OF b(2)]) simp
  show "(((y mod 16) * 4 + z div 64) mod 4) * 64 + z mod 64 = z"
    by (simp only: mid_sextet(2) [OF b(2)]) simp
  show "x div 4 * 4 + ((x mod 4) * 16) div 16 = x"
    by simp
  show "(((x mod 4) * 16 + y div 16) mod 16) * 16 + ((y mod 16) * 4) div 4 = y"
    by (simp only: hi_sextet(2) [OF b(1)]) simp
qed

lemma sextets_b64_Cons: "n < 64 \<Longrightarrow> sextets (b64 n # cs) = n # sextets cs"
  by (simp add: b64_props)

lemma sextets_pad: "sextets (CHR ''='' # cs) = []"
  by simp

lemma encode_group:
  fixes a b c :: char
  defines "x \<equiv> (of_char a :: nat)" and "y \<equiv> (of_char b :: nat)" and "z \<equiv> (of_char c :: nat)"
  shows "sextets (base64_encode [a]) = [x div 4, (x mod 4) * 16]"
    and "sextets (base64_encode [a, b]) = [x div 4, (x mod 4) * 16 + y div 16, (y mod 16) * 4]"
    and "sextets (base64_encode (a # b # c # rest)) =
           [x div 4, (x mod 4) * 16 + y div 16, (y mod 16) * 4 + z div 64, z mod 64]
           @ sextets (base64_encode rest)"
proof -
  have lt: "x < 256" "y < 256" "z < 256"
    by (simp_all add: x_def y_def z_def of_char_less)
  note p = byte_parts_lt [OF lt]
  show "sextets (base64_encode [a]) = [x div 4, (x mod 4) * 16]"
    unfolding base64_encode.simps Let_def x_def [symmetric]
    by (simp only: sextets_b64_Cons [OF p(1)] sextets_b64_Cons [OF p(5)] sextets_pad)
  show "sextets (base64_encode [a, b]) = [x div 4, (x mod 4) * 16 + y div 16, (y mod 16) * 4]"
    unfolding base64_encode.simps Let_def x_def [symmetric] y_def [symmetric]
    by (simp only: sextets_b64_Cons [OF p(1)] sextets_b64_Cons [OF p(2)]
          sextets_b64_Cons [OF p(6)] sextets_pad)
  show "sextets (base64_encode (a # b # c # rest)) =
           [x div 4, (x mod 4) * 16 + y div 16, (y mod 16) * 4 + z div 64, z mod 64]
           @ sextets (base64_encode rest)"
    unfolding base64_encode.simps Let_def x_def [symmetric] y_def [symmetric] z_def [symmetric]
    by (simp only: append_Cons append_Nil sextets_b64_Cons [OF p(1)] sextets_b64_Cons [OF p(2)]
          sextets_b64_Cons [OF p(3)] sextets_b64_Cons [OF p(4)])
qed

lemma base64_roundtrip: "base64_decode (base64_encode bs) = bs"
proof (induction bs rule: base64_encode.induct)
  case 1
  then show ?case by (simp add: base64_decode_def)
next
  case (2 a)
  have lt: "(of_char a :: nat) < 256" by (rule of_char_less)
  show ?case
    unfolding base64_decode_def encode_group(1) from_sextets.simps
      byte_parts_eq(4) [OF lt lt lt]
    by simp
next
  case (3 a b)
  have lt: "(of_char a :: nat) < 256" "(of_char b :: nat) < 256" by (rule of_char_less)+
  show ?case
    unfolding base64_decode_def encode_group(2) from_sextets.simps
      byte_parts_eq(1) [OF lt lt(2)] byte_parts_eq(5) [OF lt lt(2)]
    by simp
next
  case (4 a b c rest)
  have lt: "(of_char a :: nat) < 256" "(of_char b :: nat) < 256" "(of_char c :: nat) < 256"
    by (rule of_char_less)+
  have "from_sextets (sextets (base64_encode rest)) = rest"
    using "4.IH" by (simp add: base64_decode_def)
  then show ?case
    unfolding base64_decode_def encode_group(3) append_Cons append_Nil from_sextets.simps
      byte_parts_eq(1) [OF lt] byte_parts_eq(2) [OF lt] byte_parts_eq(3) [OF lt]
    by simp
qed

lemma base64_no_colon: "CHR '':'' \<notin> set (base64_encode bs)"
proof (induction bs rule: base64_encode.induct)
  case 1
  then show ?case by simp
next
  case (2 a)
  have lt: "(of_char a :: nat) < 256" by (rule of_char_less)
  note p = byte_parts_lt [OF lt lt lt]
  show ?case
    by (simp add: Let_def b64_props(4) [OF p(1)] b64_props(4) [OF p(5)])
next
  case (3 a b)
  have lt: "(of_char a :: nat) < 256" "(of_char b :: nat) < 256" by (rule of_char_less)+
  note p = byte_parts_lt [OF lt lt(2)]
  show ?case
    by (simp add: Let_def b64_props(4) [OF p(1)] b64_props(4) [OF p(2)] b64_props(4) [OF p(6)])
next
  case (4 a b c rest)
  have lt: "(of_char a :: nat) < 256" "(of_char b :: nat) < 256" "(of_char c :: nat) < 256"
    by (rule of_char_less)+
  note p = byte_parts_lt [OF lt]
  show ?case
    using "4.IH"
    by (simp add: Let_def b64_props(4) [OF p(1)] b64_props(4) [OF p(2)]
          b64_props(4) [OF p(3)] b64_props(4) [OF p(4)])
qed

lemma split_no_sep: "d \<notin> set s \<Longrightarrow> split d s = [s]"
  by (induction s) (auto simp: Let_def)

lemma split_append_sep:
  "d \<notin> set a \<Longrightarrow> split d (a @ d # rest) = a # split d rest"
  by (induction a) (auto simp: Let_def)

lemma split_three:
  "d \<notin> set a \<Longrightarrow> d \<notin> set b \<Longrightarrow> d \<notin> set c \<Longrightarrow>
   split d (a @ d # b @ d # c) = [a, b, c]"
  by (simp add: split_append_sep split_no_sep)

lemma encrypt_blob:
  "plaintext \<noteq> [] \<Longrightarrow> seal A key iv plaintext = Some (ct, tag) \<Longrightarrow>
   encrypt A key iv plaintext =
     Inr (base64_encode iv @ CHR '':'' # base64_encode tag @ CHR '':'' # base64_encode ct)"
  by (simp add: encrypt_def)

lemma decrypt_blob:
  "decrypt A key (base64_encode iv @ CHR '':'' # base64_encode tag @ CHR '':'' # base64_encode ct)
     = (case unseal A key iv tag ct of
          None \<Rightarrow> Inl (Error ''Failed to decrypt token'')
        | Some p \<Rightarrow> Inr p)"
  by (simp add: decrypt_def Let_def split_three base64_no_colon base64_roundtrip)

text \<open>
  C4. Over any cipher that, under the key, opens what it sealed with a 16-byte IV:
  decrypting what \<open>encrypt\<close> returned for a string gives the string back, whatever
  bytes it holds, the \<open>:\<close> delimiter included. For the empty string \<open>encrypt\<close> and
  \<open>decrypt\<close> both return the empty string, whatever the cipher is: it is not called.
\<close>

theorem encrypt_decrypt_roundtrip:
  "(aead_correct A key \<and> length iv = 16 \<longrightarrow>
      (\<exists>blob. encrypt A key iv s = Inr blob \<and> decrypt A key blob = Inr s))
   \<and> encrypt A key iv [] = Inr [] \<and> decrypt A key [] = Inr []"
proof (intro conjI impI)
  assume h: "aead_correct A key \<and> length iv = 16"
  show "\<exists>blob. encrypt A key iv s = Inr blob \<and> decrypt A key blob = Inr s"
  proof (cases "s = []")
    case True
    then show ?thesis by (simp add: encrypt_def decrypt_def)
  next
    case False
    from h obtain ct tag where
      c: "seal A key iv s = Some (ct, tag)" "unseal A key iv tag ct = Some s"
      unfolding aead_correct_def by blast
    show ?thesis
      using encrypt_blob [OF False c(1)] decrypt_blob [of A key iv tag ct] c(2) by simp
  qed
next
  show "encrypt A key iv [] = Inr []" by (simp add: encrypt_def)
  show "decrypt A key [] = Inr []" by (simp add: decrypt_def)
qed

lemma char_of_mod: "char_of (n :: nat) = char_of (n mod 256)"
  by (simp add: char_of_eq_iff take_bit_eq_mod)

lemma shift_back:
  assumes "k < 256"
  shows "shift_byte (256 - k) (shift_byte k c) = c"
proof -
  let ?c = "of_char c :: nat"
  have c: "?c < 256" by (rule of_char_less)
  have e: "((?c + k) mod 256 + (256 - k)) mod 256 = ?c"
  proof (cases "?c + k < 256")
    case True
    then show ?thesis using c assms by simp
  next
    case False
    then have ge: "256 \<le> ?c + k" by simp
    have lt: "?c + k - 256 < 256" using c assms by linarith
    have "(?c + k) mod 256 = (?c + k - 256) mod 256"
      using ge by (rule le_mod_geq)
    then have m: "(?c + k) mod 256 = ?c + k - 256"
      using lt by (simp only: mod_less)
    have "(?c + k - 256) + (256 - k) = ?c"
      using False c assms by linarith
    then have "(?c + k) mod 256 + (256 - k) = ?c"
      by (simp only: m)
    then show ?thesis using c by (simp only: mod_less)
  qed
  have "char_of ((?c + k) mod 256 + (256 - k))
          = char_of (((?c + k) mod 256 + (256 - k)) mod 256)"
    by (rule char_of_mod)
  also have "\<dots> = char_of ?c" by (simp only: e)
  also have "\<dots> = c" by simp
  finally have r: "char_of ((?c + k) mod 256 + (256 - k)) = c" .
  have "shift_byte (256 - k) (shift_byte k c)
          = char_of (of_char (char_of (?c + k)) + (256 - k))"
    by (simp only: shift_byte_def)
  also have "\<dots> = char_of ((?c + k) mod 256 + (256 - k))"
    by (simp only: of_char_of)
  finally show ?thesis using r by simp
qed

lemma toy_aead_correct: "length key = 32 \<Longrightarrow> aead_correct toy_aead key"
proof -
  assume "length key = 32"
  moreover have "(of_char (hd key) :: nat) < 256" by (rule of_char_less)
  ultimately show ?thesis
    by (simp add: aead_correct_def toy_aead_def Let_def shift_back comp_def)
qed



theorem encrypt_decrypt_roundtrip_witness:
  "(\<exists>blob. encrypt toy_aead key0 iv0 ''a:b'' = Inr blob \<and> decrypt toy_aead key0 blob = Inr ''a:b'')
   \<and> encrypt toy_aead key0 iv0 [] = Inr [] \<and> decrypt toy_aead key0 [] = Inr []"
proof -
  have "length key0 = 32" by (simp add: key0_def)
  then have "aead_correct toy_aead key0 \<and> length iv0 = 16"
    using toy_aead_correct by (simp add: iv0_def)
  then show ?thesis
    using encrypt_decrypt_roundtrip [of toy_aead key0 iv0 "''a:b''"] by blast
qed




end
